theory Spec2Isabelle
  imports Main "HOL-Library.Char_ord" "HOL-Library.List_Lexorder"
begin

section \<open>Data model of the Twitch drops bot\<close>

text \<open>
  The development follows \<^verbatim>\<open>src/twitch_drops_bot.ts\<close>. JavaScript strings are
  \<open>string\<close>, compared with \<open><\<close> in the lexicographic order of their characters;
  JavaScript numbers that hold counts, minutes and millisecond timestamps are \<open>int\<close>.
  An exception is a value \<open>Inl e\<close> of a sum type.
\<close>

datatype error =
    NoStreamsError
  | NoProgressError
  | HighPriorityError
  | StreamLoadFailedError
  | StreamDownError
  | TypeError
  | OtherError string

text \<open>
  \<^verbatim>\<open>Date.parse\<close> yields a number of milliseconds or \<^verbatim>\<open>NaN\<close>. Every comparison
  with \<^verbatim>\<open>NaN\<close> (\<^verbatim>\<open>===\<close>, \<^verbatim>\<open><\<close>) is false.
\<close>

datatype timeval = NaN | Millis int

fun timeval_eq :: "timeval \<Rightarrow> timeval \<Rightarrow> bool" where
  "timeval_eq (Millis a) (Millis b) = (a = b)"
| "timeval_eq _ _ = False"

fun timeval_lt :: "timeval \<Rightarrow> timeval \<Rightarrow> bool" where
  "timeval_lt (Millis a) (Millis b) = (a < b)"
| "timeval_lt _ _ = False"

text \<open>
  A \<^verbatim>\<open>DropCampaign\<close> as the bot reads it: \<^verbatim>\<open>id\<close>, \<^verbatim>\<open>name\<close>, \<^verbatim>\<open>status\<close>,
  \<^verbatim>\<open>game.id\<close>, \<^verbatim>\<open>game.displayName\<close>, \<^verbatim>\<open>endAt\<close>, \<^verbatim>\<open>self.isAccountConnected\<close>,
  \<^verbatim>\<open>allow.isEnabled\<close> and \<^verbatim>\<open>allow.channels\<close> (\<open>None\<close> is \<^verbatim>\<open>null\<close>; the list
  holds the channels' ids).
\<close>

record dropCampaign =
  campaign_id :: string
  campaign_name :: string
  status :: string
  game_id :: string
  game_displayName :: string
  endAt :: string
  self_isAccountConnected :: bool
  allow_isEnabled :: bool
  allow_channels :: "string list option"

text \<open>
  A \<^verbatim>\<open>TimeBasedDrop\<close>: \<^verbatim>\<open>id\<close>, \<^verbatim>\<open>requiredMinutesWatched\<close>, \<^verbatim>\<open>endAt\<close>,
  \<^verbatim>\<open>self.currentMinutesWatched\<close>, \<^verbatim>\<open>self.dropInstanceID\<close>.
\<close>

record timeBasedDrop =
  drop_id :: string
  requiredMinutesWatched :: int
  drop_endAt :: string
  self_currentMinutesWatched :: int
  self_dropInstanceID :: string

record stream =
  url :: string
  broadcaster_id :: string

section \<open>The comparator of the pending queue\<close>

text \<open>\<^verbatim>\<open>Array.prototype.indexOf\<close>: the first index of the element, or \<open>-1\<close>.\<close>

fun indexOf :: "'a list \<Rightarrow> 'a \<Rightarrow> int" where
  "indexOf [] x = - 1"
| "indexOf (y # ys) x =
     (if y = x then 0
      else (let i = indexOf ys x in if i = - 1 then - 1 else i + 1))"

text \<open>
  The comparator passed to \<^verbatim>\<open>new SortedArray(...)\<close> (lines 142--167). \<open>parse\<close> is
  \<^verbatim>\<open>Date.parse\<close>, \<open>gids\<close> is \<^verbatim>\<open>#gameIds\<close> and \<open>m\<close> is \<^verbatim>\<open>#dropCampaignMap\<close>.
  Reading \<^verbatim>\<open>.game\<close> of a campaign that is not in the map throws a \<^verbatim>\<open>TypeError\<close>.
\<close>

definition comparator ::
  "(string \<Rightarrow> timeval) \<Rightarrow> string list \<Rightarrow> (string \<rightharpoonup> dropCampaign) \<Rightarrow> string \<Rightarrow> string
     \<Rightarrow> error + int" where
  "comparator parse gids m a b =
     (if a = b then Inr 0
      else case m a of
        None \<Rightarrow> Inl TypeError
      | Some campaignA \<Rightarrow>
          (case m b of
             None \<Rightarrow> Inl TypeError
           | Some campaignB \<Rightarrow>
               (let indexA = indexOf gids (game_id campaignA);
                    indexB = indexOf gids (game_id campaignB)
                in if indexA = - 1 \<and> indexB \<noteq> - 1 then Inr 1
                   else if indexA \<noteq> - 1 \<and> indexB = - 1 then Inr (- 1)
                   else if indexA = indexB then
                     (let endTimeA = parse (endAt campaignA);
                          endTimeB = parse (endAt campaignB)
                      in if timeval_eq endTimeA endTimeB
                         then Inr (if a < b then - 1 else 1)
                         else Inr (if timeval_lt endTimeA endTimeB then - 1 else 1))
                   else Inr (sgn (indexA - indexB)))))"

section \<open>Configuration and state of the bot\<close>

text \<open>
  The options of \<^verbatim>\<open>TwitchDropsBotOptions\<close> that decide behaviour
  (\<^verbatim>\<open>showAccountNotLinkedWarning\<close>, \<^verbatim>\<open>hideVideo\<close>, \<^verbatim>\<open>loadTimeoutSeconds\<close> and
  the polling interval only reach the logger, the page driver and the watchdog).
\<close>

record options =
  gameIds :: "string list"
  watchUnlistedGames :: bool
  ignoredGameIds :: "string list"
  failedStreamRetryCount :: int
  failedStreamBlacklistTimeout :: int
  attemptImpossibleDropCampaigns :: bool
  watchStreamsWhenNoDropCampaignsActive :: bool
  broadcasterIds :: "string list"

definition sleepTimeMilliseconds :: int where
  "sleepTimeMilliseconds = 1000 * 60 * 5"

text \<open>
  Modelled from the spec: the class \<^verbatim>\<open>TimedSet\<close> of \<^verbatim>\<open>utils.ts\<close> is not among the
  sources. The spec describes an expiring set: each key has its own expiry timestamp,
  there are only insertion and membership check, and an entry vanishes once its expiry
  has elapsed (lazy expiry at the membership check). \<open>now\<close> is the clock reading at
  the call.
\<close>

record timedSet =
  timeout :: int
  expiry :: "string \<rightharpoonup> int"

definition TimedSet_new :: "int \<Rightarrow> timedSet" where
  "TimedSet_new t = \<lparr>timeout = t, expiry = Map.empty\<rparr>"

definition TimedSet_add :: "int \<Rightarrow> string \<Rightarrow> timedSet \<Rightarrow> timedSet" where
  "TimedSet_add now k ts = ts\<lparr>expiry := (expiry ts)(k \<mapsto> now + timeout ts)\<rparr>"

definition TimedSet_has :: "int \<Rightarrow> timedSet \<Rightarrow> string \<Rightarrow> bool" where
  "TimedSet_has now ts k = (case expiry ts k of None \<Rightarrow> False | Some t \<Rightarrow> now < t)"

text \<open>
  The private fields of \<^verbatim>\<open>TwitchDropsBot\<close> that the scheduler reads and writes. The
  pending queue is the content of the \<^verbatim>\<open>SortedArray\<close> in iteration order. The
  progress bar, the viewer count and the stream-down flag live inside the watch session.
\<close>

record bot =
  pendingDropCampaignIds :: "string list"
  dropCampaignMap :: "string \<rightharpoonup> dropCampaign"
  currentDropCampaignId :: "string option"
  pendingHighPriority :: bool
  lastDropCampaignAttemptTimes :: "string \<rightharpoonup> int"
  failedStreamUrlCounts :: "string \<rightharpoonup> int"
  streamUrlTemporaryBlacklist :: timedSet

text \<open>The fields as the constructor leaves them (lines 214--260).\<close>

definition newBot :: "options \<Rightarrow> bot" where
  "newBot opts =
     \<lparr>pendingDropCampaignIds = [],
      dropCampaignMap = Map.empty,
      currentDropCampaignId = None,
      pendingHighPriority = False,
      lastDropCampaignAttemptTimes = Map.empty,
      failedStreamUrlCounts = Map.empty,
      streamUrlTemporaryBlacklist =
        TimedSet_new (1000 * 60 * failedStreamBlacklistTimeout opts)\<rparr>"

section \<open>The collaborators\<close>

text \<open>
  The Twitch client, the page driver, the clock and the notifier are outside the bot.
  Their answers come from a world \<open>'w\<close> that every call may change; a failing call
  answers \<open>Inl\<close> of the error it throws. The calls the bot makes are recorded in
  order, next to the world, so that a property can say which calls were issued.

  \<^verbatim>\<open>getFirstUnclaimedDrop\<close> and \<^verbatim>\<open>getInventoryDrop\<close> are functions of
  \<^verbatim>\<open>twitch.ts\<close>, which is not among the sources: they are parameters, over an
  inventory of any type \<open>'inv\<close>. \<open>session\<close> is the outcome of \<^verbatim>\<open>#watchStream\<close>,
  which drives the page, the web socket listener and the components.
\<close>

datatype call =
    GetInventory
  | GetDropCampaignDetails string
  | ClaimDropReward string
  | GetActiveStreams string
  | WatchStream string
  | PageGoto string
  | NotifyAll
  | SetNotifyTimeout int
  | WaitNotify

record ('w, 'inv) ext =
  Date_parse :: "string \<Rightarrow> timeval"
  Date_getTime :: "'w \<Rightarrow> int \<times> 'w"
  client_getInventory :: "'w \<Rightarrow> (error + 'inv) \<times> 'w"
  client_getDropCampaignDetails :: "string \<Rightarrow> 'w \<Rightarrow> (error + dropCampaign) \<times> 'w"
  client_claimDropReward :: "string \<Rightarrow> 'w \<Rightarrow> (error + unit) \<times> 'w"
  client_getActiveStreams :: "string \<Rightarrow> 'w \<Rightarrow> (error + stream list) \<times> 'w"
  getFirstUnclaimedDrop :: "string \<Rightarrow> dropCampaign \<Rightarrow> 'inv \<Rightarrow> timeBasedDrop option"
  getInventoryDrop :: "string \<Rightarrow> 'inv \<Rightarrow> string \<Rightarrow> timeBasedDrop option"
  session :: "string \<Rightarrow> 'w \<Rightarrow> (error + unit) \<times> 'w"
  page_goto :: "string \<Rightarrow> 'w \<Rightarrow> (error + unit) \<times> 'w"

type_synonym 'w env = "'w \<times> call list"

definition logged :: "call \<Rightarrow> ('w \<Rightarrow> 'a \<times> 'w) \<Rightarrow> 'w env \<Rightarrow> 'a \<times> 'w env" where
  "logged c f e = (case f (fst e) of (r, w) \<Rightarrow> (r, (w, snd e @ [c])))"

definition getTime :: "('w, 'inv) ext \<Rightarrow> 'w env \<Rightarrow> int \<times> 'w env" where
  "getTime x e = (case Date_getTime x (fst e) of (now, w) \<Rightarrow> (now, (w, snd e)))"

definition getInventory :: "('w, 'inv) ext \<Rightarrow> 'w env \<Rightarrow> (error + 'inv) \<times> 'w env" where
  "getInventory x = logged GetInventory (client_getInventory x)"

definition getDropCampaignDetails ::
  "('w, 'inv) ext \<Rightarrow> string \<Rightarrow> 'w env \<Rightarrow> (error + dropCampaign) \<times> 'w env" where
  "getDropCampaignDetails x dropCampaignId =
     logged (GetDropCampaignDetails dropCampaignId) (client_getDropCampaignDetails x dropCampaignId)"

text \<open>
  \<^verbatim>\<open>#claimDropReward\<close> (lines 694--697): the claim call for the drop's
  \<^verbatim>\<open>dropInstanceID\<close>; the log line that follows needs the drop's benefit name, which
  every drop has.
\<close>

definition claimDropReward ::
  "('w, 'inv) ext \<Rightarrow> timeBasedDrop \<Rightarrow> 'w env \<Rightarrow> (error + unit) \<times> 'w env" where
  "claimDropReward x drp =
     logged (ClaimDropReward (self_dropInstanceID drp))
       (client_claimDropReward x (self_dropInstanceID drp))"

definition notifyAll :: "'w env \<Rightarrow> 'w env" where
  "notifyAll e = (fst e, snd e @ [NotifyAll])"

text \<open>The blacklist consults the clock at each insertion and membership check.\<close>

definition blacklist_add :: "('w, 'inv) ext \<Rightarrow> string \<Rightarrow> bot \<Rightarrow> 'w env \<Rightarrow> bot \<times> 'w env" where
  "blacklist_add x streamUrl s e =
     (case getTime x e of (now, e1) \<Rightarrow>
        (s\<lparr>streamUrlTemporaryBlacklist :=
             TimedSet_add now streamUrl (streamUrlTemporaryBlacklist s)\<rparr>, e1))"

definition blacklist_has :: "('w, 'inv) ext \<Rightarrow> bot \<Rightarrow> string \<Rightarrow> 'w env \<Rightarrow> bool \<times> 'w env" where
  "blacklist_has x s streamUrl e =
     (case getTime x e of (now, e1) \<Rightarrow>
        (TimedSet_has now (streamUrlTemporaryBlacklist s) streamUrl, e1))"

section \<open>Stream selection\<close>

text \<open>
  \<^verbatim>\<open>#getActiveStreams\<close> (lines 979--998): the live streams of the campaign's game
  that have drops enabled, restricted to the channels of the allow list when the
  campaign details have one. The blacklist is not consulted here.
\<close>

definition getActiveStreams ::
  "('w, 'inv) ext \<Rightarrow> bot \<Rightarrow> string \<Rightarrow> dropCampaign \<Rightarrow> 'w env \<Rightarrow> (error + stream list) \<times> 'w env" where
  "getActiveStreams x s campaignId details e =
     (case dropCampaignMap s campaignId of
        None \<Rightarrow> (Inl TypeError, e)
      | Some campaign \<Rightarrow>
          (case logged (GetActiveStreams (game_displayName campaign))
                  (client_getActiveStreams x (game_displayName campaign)) e of
             (Inl err, e1) \<Rightarrow> (Inl err, e1)
           | (Inr streams, e1) \<Rightarrow>
               (Inr (if allow_isEnabled details
                     then (case allow_channels details of
                             None \<Rightarrow> streams
                           | Some channelIds \<Rightarrow>
                               filter (\<lambda>st. broadcaster_id st \<in> set channelIds) streams)
                     else streams), e1)))"

text \<open>
  The filter of lines 655--657:
  \<^verbatim>\<open>streams.filter(stream => !this.#streamUrlTemporaryBlacklist.has(stream.url))\<close>.
\<close>

fun filterNotBlacklisted ::
  "('w, 'inv) ext \<Rightarrow> bot \<Rightarrow> stream list \<Rightarrow> 'w env \<Rightarrow> stream list \<times> 'w env" where
  "filterNotBlacklisted x s [] e = ([], e)"
| "filterNotBlacklisted x s (st # rest) e =
     (case blacklist_has x s (url st) e of
        (b, e1) \<Rightarrow>
          (case filterNotBlacklisted x s rest e1 of
             (good, e2) \<Rightarrow> (if b then good else st # good, e2)))"

section \<open>The higher-priority check\<close>

text \<open>
  The cool-down test shared by lines 333--339 and 414--420: a recorded attempt time
  that is truthy (not \<open>0\<close>) and less than \<open>sleepTimeMilliseconds\<close> old. The clock is
  read only when there is such a time.
\<close>

definition attemptedRecently :: "('w, 'inv) ext \<Rightarrow> bot \<Rightarrow> string \<Rightarrow> 'w env \<Rightarrow> bool \<times> 'w env" where
  "attemptedRecently x s dropCampaignId e =
     (case lastDropCampaignAttemptTimes s dropCampaignId of
        None \<Rightarrow> (False, e)
      | Some lastAttemptTime \<Rightarrow>
          if lastAttemptTime = 0 then (False, e)
          else (case getTime x e of
                  (now, e1) \<Rightarrow> (now - lastAttemptTime < sleepTimeMilliseconds, e1)))"

text \<open>How one turn of a \<^verbatim>\<open>for\<close> loop ends.\<close>

datatype 'a turn = Continue | Return 'a | Throw error

text \<open>
  The body of the loop of \<^verbatim>\<open>#hasPendingHigherPriorityStream\<close> after the test for
  the current campaign (lines 333--393).
\<close>

definition checkCandidate ::
  "('w, 'inv) ext \<Rightarrow> bot \<Rightarrow> string \<Rightarrow> 'w env \<Rightarrow> bool turn \<times> 'w env" where
  "checkCandidate x s dropCampaignId e =
     (case attemptedRecently x s dropCampaignId e of
        (True, e1) \<Rightarrow> (Continue, e1)
      | (False, e1) \<Rightarrow>
     (case dropCampaignMap s dropCampaignId of
        None \<Rightarrow> (Throw TypeError, e1)
      | Some campaign \<Rightarrow>
     if status campaign \<noteq> ''ACTIVE'' then (Continue, e1)
     else
     (case getInventory x e1 of
        (Inl err, e2) \<Rightarrow> (Continue, e2)
      | (Inr inventory, e2) \<Rightarrow>
     (case getDropCampaignDetails x dropCampaignId e2 of
        (Inl err, e3) \<Rightarrow> (Continue, e3)
      | (Inr details, e3) \<Rightarrow>
     (case getFirstUnclaimedDrop x dropCampaignId details inventory of
        None \<Rightarrow> (Continue, e3)
      | Some firstUnclaimedDrop \<Rightarrow>
     (case (case getInventoryDrop x (drop_id firstUnclaimedDrop) inventory dropCampaignId of
              None \<Rightarrow> None
            | Some inventoryDrop \<Rightarrow>
                if self_currentMinutesWatched inventoryDrop \<ge> requiredMinutesWatched inventoryDrop
                then Some inventoryDrop else None) of
        Some inventoryDrop \<Rightarrow> (Continue, snd (claimDropReward x inventoryDrop e3))
      | None \<Rightarrow>
     (case getActiveStreams x s dropCampaignId details e3 of
        (Inl err, e4) \<Rightarrow> (Continue, e4)
      | (Inr streams, e4) \<Rightarrow>
          if length streams > 0 then (Return True, e4) else (Continue, e4))))))))"

text \<open>
  \<^verbatim>\<open>#hasPendingHigherPriorityStream\<close> (lines 323--397): the loop over the pending
  queue, which ends at the current campaign. The check reads the bot's fields and
  writes none of them; they are taken as they are when the check starts.
\<close>

fun hasPendingLoop ::
  "('w, 'inv) ext \<Rightarrow> bot \<Rightarrow> string list \<Rightarrow> 'w env \<Rightarrow> (error + bool) \<times> 'w env" where
  "hasPendingLoop x s [] e = (Inr False, e)"
| "hasPendingLoop x s (dropCampaignId # rest) e =
     (if Some dropCampaignId = currentDropCampaignId s then (Inr False, e)
      else (case checkCandidate x s dropCampaignId e of
              (Continue, e1) \<Rightarrow> hasPendingLoop x s rest e1
            | (Return b, e1) \<Rightarrow> (Inr b, e1)
            | (Throw err, e1) \<Rightarrow> (Inl err, e1)))"

definition hasPendingHigherPriorityStream ::
  "('w, 'inv) ext \<Rightarrow> bot \<Rightarrow> 'w env \<Rightarrow> (error + bool) \<times> 'w env" where
  "hasPendingHigherPriorityStream x s e = hasPendingLoop x s (pendingDropCampaignIds s) e"

text \<open>\<^verbatim>\<open>#getNextPendingDropCampaignId\<close> (lines 404--425).\<close>

fun getNextLoop ::
  "('w, 'inv) ext \<Rightarrow> bot \<Rightarrow> string list \<Rightarrow> 'w env \<Rightarrow> (error + string option) \<times> 'w env" where
  "getNextLoop x s [] e = (Inr None, e)"
| "getNextLoop x s (dropCampaignId # rest) e =
     (case dropCampaignMap s dropCampaignId of
        None \<Rightarrow> (Inl TypeError, e)
      | Some campaign \<Rightarrow>
          if status campaign \<noteq> ''ACTIVE'' then getNextLoop x s rest e
          else (case attemptedRecently x s dropCampaignId e of
                  (True, e1) \<Rightarrow> getNextLoop x s rest e1
                | (False, e1) \<Rightarrow> (Inr (Some dropCampaignId), e1)))"

definition getNextPendingDropCampaignId ::
  "('w, 'inv) ext \<Rightarrow> bot \<Rightarrow> 'w env \<Rightarrow> (error + string option) \<times> 'w env" where
  "getNextPendingDropCampaignId x s e = getNextLoop x s (pendingDropCampaignIds s) e"

section \<open>Watching one stream\<close>

text \<open>
  \<^verbatim>\<open>#watchStream\<close> (lines 826--977) as far as the scheduler sees it: the session's
  outcome comes from the world; when the session ends with \<^verbatim>\<open>HighPriorityError\<close> it
  has cleared \<^verbatim>\<open>#pendingHighPriority\<close> just before (lines 950--954).
\<close>

definition watchStream ::
  "('w, 'inv) ext \<Rightarrow> string \<Rightarrow> bot \<Rightarrow> 'w env \<Rightarrow> (error + unit) \<times> bot \<times> 'w env" where
  "watchStream x streamUrl s e =
     (case logged (WatchStream streamUrl) (session x streamUrl) e of
        (r, e1) \<Rightarrow>
          (r, if r = Inl HighPriorityError then s\<lparr>pendingHighPriority := False\<rparr> else s, e1))"

text \<open>
  The failure counter update of \<^verbatim>\<open>#watchStreamWrapper\<close> (lines 808--817): create the
  counter at zero if absent, increment it, and at the retry threshold blacklist the URL
  and set the counter back to zero.
\<close>

definition recordFailure ::
  "('w, 'inv) ext \<Rightarrow> options \<Rightarrow> string \<Rightarrow> bot \<Rightarrow> 'w env \<Rightarrow> bot \<times> 'w env" where
  "recordFailure x opts streamUrl s e =
     (let count = (case failedStreamUrlCounts s streamUrl of None \<Rightarrow> 0 | Some n \<Rightarrow> n) + 1;
          s1 = s\<lparr>failedStreamUrlCounts := (failedStreamUrlCounts s)(streamUrl \<mapsto> count)\<rparr>
      in if count \<ge> failedStreamRetryCount opts
         then (case blacklist_add x streamUrl s1 e of
                 (s2, e2) \<Rightarrow>
                   (s2\<lparr>failedStreamUrlCounts := (failedStreamUrlCounts s2)(streamUrl \<mapsto> 0)\<rparr>, e2))
         else (s1, e))"

text \<open>
  The \<^verbatim>\<open>catch\<close> block of \<^verbatim>\<open>#watchStreamWrapper\<close> (lines 788--821). The chain of
  \<^verbatim>\<open>instanceof\<close> tests only logs, except for \<^verbatim>\<open>StreamDownError\<close>, which blacklists
  the URL and sets its counter to zero; the counter update follows for every error, and
  the error is thrown again. The screenshot that the environment variable
  \<^verbatim>\<open>SAVE_ERROR_SCREENSHOTS\<close> asks for is left out.
\<close>

definition onSessionError ::
  "('w, 'inv) ext \<Rightarrow> options \<Rightarrow> string \<Rightarrow> error \<Rightarrow> bot \<Rightarrow> 'w env \<Rightarrow> bot \<times> 'w env" where
  "onSessionError x opts streamUrl err s e =
     (case (if err = HighPriorityError then (s, e)
            else if err = StreamLoadFailedError then (s, e)
            else if err = StreamDownError then
              (case blacklist_add x streamUrl s e of
                 (s1, e1) \<Rightarrow>
                   (s1\<lparr>failedStreamUrlCounts := (failedStreamUrlCounts s1)(streamUrl \<mapsto> 0)\<rparr>, e1))
            else (s, e)) of
        (s2, e2) \<Rightarrow> recordFailure x opts streamUrl s2 e2)"

text \<open>\<^verbatim>\<open>#watchStreamWrapper\<close> (lines 762--824).\<close>

definition watchStreamWrapper ::
  "('w, 'inv) ext \<Rightarrow> options \<Rightarrow> string \<Rightarrow> bot \<Rightarrow> 'w env \<Rightarrow> (error + unit) \<times> bot \<times> 'w env" where
  "watchStreamWrapper x opts streamUrl s e =
     (case watchStream x streamUrl s e of
        (Inr u, s1, e1) \<Rightarrow> (Inr u, s1, e1)
      | (Inl err, s1, e1) \<Rightarrow>
          (case onSessionError x opts streamUrl err s1 e1 of
             (s2, e2) \<Rightarrow> (Inl err, s2, e2)))"

section \<open>Processing a campaign\<close>

text \<open>
  The inner loop of \<^verbatim>\<open>#processDropCampaign\<close> (lines 648--686). The loop has no
  bound of its own: the first argument is the number of turns allowed, and \<open>None\<close>
  says that they did not suffice.
\<close>

fun watchLoop ::
  "nat \<Rightarrow> ('w, 'inv) ext \<Rightarrow> options \<Rightarrow> string \<Rightarrow> dropCampaign \<Rightarrow> bot \<Rightarrow> 'w env
     \<Rightarrow> ((error + unit) \<times> bot \<times> 'w env) option" where
  "watchLoop 0 x opts dropCampaignId details s e = None"
| "watchLoop (Suc n) x opts dropCampaignId details s e =
     (case getActiveStreams x s dropCampaignId details e of
        (Inl err, e1) \<Rightarrow> Some (Inl err, s, e1)
      | (Inr streams, e1) \<Rightarrow>
          (case filterNotBlacklisted x s streams e1 of
             ([], e2) \<Rightarrow> Some (Inl NoStreamsError, s, e2)
           | (st # _, e2) \<Rightarrow>
               (case watchStreamWrapper x opts (url st) s e2 of
                  (Inr u, s3, e3) \<Rightarrow> Some (Inr (), s3, e3)
                | (Inl err, s3, e3) \<Rightarrow>
                    if err = HighPriorityError then Some (Inl err, s3, e3)
                    else watchLoop n x opts dropCampaignId details s3 e3)))"

text \<open>
  The test of lines 634--641. The remaining active time is compared in milliseconds
  instead of fractional minutes; an end time that does not parse compares false.
\<close>

definition impossibleDrop ::
  "('w, 'inv) ext \<Rightarrow> options \<Rightarrow> timeBasedDrop \<Rightarrow> int \<Rightarrow> 'w env \<Rightarrow> bool \<times> 'w env" where
  "impossibleDrop x opts drp currentMinutesWatched e =
     (if \<not> attemptImpossibleDropCampaigns opts
      then (case getTime x e of
              (now, e1) \<Rightarrow>
                (let remainingWatchTimeMinutes = requiredMinutesWatched drp - currentMinutesWatched
                 in (case Date_parse x (drop_endAt drp) of
                       NaN \<Rightarrow> False
                     | Millis t \<Rightarrow> t - now < remainingWatchTimeMinutes * (1000 * 60)), e1))
      else (False, e))"

text \<open>The outer loop of \<^verbatim>\<open>#processDropCampaign\<close> (lines 610--687).\<close>

fun dropLoop ::
  "nat \<Rightarrow> ('w, 'inv) ext \<Rightarrow> options \<Rightarrow> string \<Rightarrow> dropCampaign \<Rightarrow> bot \<Rightarrow> 'w env
     \<Rightarrow> ((error + unit) \<times> bot \<times> 'w env) option" where
  "dropLoop 0 x opts dropCampaignId details s e = None"
| "dropLoop (Suc n) x opts dropCampaignId details s e =
     (case getInventory x e of
        (Inl err, e1) \<Rightarrow> Some (Inl err, s, e1)
      | (Inr inventory, e1) \<Rightarrow>
     (case getFirstUnclaimedDrop x dropCampaignId details inventory of
        None \<Rightarrow> Some (Inr (), s, e1)
      | Some drp \<Rightarrow>
     (case (case getInventoryDrop x (drop_id drp) inventory dropCampaignId of
              None \<Rightarrow> (0, None)
            | Some inventoryDrop \<Rightarrow>
                (self_currentMinutesWatched inventoryDrop,
                 if self_currentMinutesWatched inventoryDrop \<ge> requiredMinutesWatched inventoryDrop
                 then Some inventoryDrop else None)) of
        (currentMinutesWatched, Some inventoryDrop) \<Rightarrow>
          (case claimDropReward x inventoryDrop e1 of
             (Inl err, e2) \<Rightarrow> Some (Inl err, s, e2)
           | (Inr u, e2) \<Rightarrow> dropLoop n x opts dropCampaignId details s e2)
      | (currentMinutesWatched, None) \<Rightarrow>
     (case impossibleDrop x opts drp currentMinutesWatched e1 of
        (True, e2) \<Rightarrow> Some (Inr (), s, e2)
      | (False, e2) \<Rightarrow>
          (case watchLoop n x opts dropCampaignId details
                  (s\<lparr>failedStreamUrlCounts := Map.empty\<rparr>) e2 of
             None \<Rightarrow> None
           | Some (Inl err, s3, e3) \<Rightarrow> Some (Inl err, s3, e3)
           | Some (Inr u, s3, e3) \<Rightarrow> dropLoop n x opts dropCampaignId details s3 e3)))))"

text \<open>
  \<^verbatim>\<open>#processDropCampaign\<close> (lines 591--688). The first log line reads the campaign
  from the map, then the attempt time is recorded and the details are fetched once.
\<close>

definition processDropCampaign ::
  "nat \<Rightarrow> ('w, 'inv) ext \<Rightarrow> options \<Rightarrow> string \<Rightarrow> bot \<Rightarrow> 'w env
     \<Rightarrow> ((error + unit) \<times> bot \<times> 'w env) option" where
  "processDropCampaign fuel x opts dropCampaignId s e =
     (case dropCampaignMap s dropCampaignId of
        None \<Rightarrow> Some (Inl TypeError, s, e)
      | Some campaign \<Rightarrow>
          (case getTime x e of
             (now, e1) \<Rightarrow>
               (let s1 = s\<lparr>lastDropCampaignAttemptTimes :=
                             (lastDropCampaignAttemptTimes s)(dropCampaignId \<mapsto> now)\<rparr>
                in (case getDropCampaignDetails x dropCampaignId e1 of
                      (Inl err, e2) \<Rightarrow> Some (Inl err, s1, e2)
                    | (Inr details, e2) \<Rightarrow> dropLoop fuel x opts dropCampaignId details s1 e2))))"

section \<open>The main loop\<close>

text \<open>
  The loop of lines 542--547: the least of the start value and the truthy attempt times
  of the pending campaigns.
\<close>

fun minLastDropCampaignCheckTime :: "(string \<rightharpoonup> int) \<Rightarrow> string list \<Rightarrow> int \<Rightarrow> int" where
  "minLastDropCampaignCheckTime attemptTimes [] acc = acc"
| "minLastDropCampaignCheckTime attemptTimes (pendingDropCampaignId # rest) acc =
     (case attemptTimes pendingDropCampaignId of
        None \<Rightarrow> minLastDropCampaignCheckTime attemptTimes rest acc
      | Some lastCheckTime \<Rightarrow>
          if lastCheckTime = 0 then minLastDropCampaignCheckTime attemptTimes rest acc
          else minLastDropCampaignCheckTime attemptTimes rest (min acc lastCheckTime))"

text \<open>
  The sleep duration of lines 541--548; \<open>now1\<close> and \<open>now2\<close> are the two clock readings,
  before and after the loop.
\<close>

definition sleepTime :: "bot \<Rightarrow> int \<Rightarrow> int \<Rightarrow> int" where
  "sleepTime s now1 now2 =
     max 0 (sleepTimeMilliseconds -
       (now2 - minLastDropCampaignCheckTime (lastDropCampaignAttemptTimes s)
                 (pendingDropCampaignIds s) now1))"

text \<open>
  The sleeping branch of \<^verbatim>\<open>start\<close> (lines 537--558): blank page, sleep duration,
  timer that notifies, wait on the notifier.
\<close>

definition sleepBranch ::
  "('w, 'inv) ext \<Rightarrow> bot \<Rightarrow> 'w env \<Rightarrow> (error + unit) \<times> bot \<times> 'w env" where
  "sleepBranch x s e =
     (case logged (PageGoto ''about:blank'') (page_goto x ''about:blank'') e of
        (Inl err, e1) \<Rightarrow> (Inl err, s, e1)
      | (Inr u, e1) \<Rightarrow>
          (case getTime x e1 of
             (now1, e2) \<Rightarrow>
               (case getTime x e2 of
                  (now2, e3) \<Rightarrow>
                    (Inr (), s,
                     (fst e3, snd e3 @ [SetNotifyTimeout (sleepTime s now1 now2), WaitNotify])))))"

text \<open>
  The campaign branch of \<^verbatim>\<open>start\<close> (lines 561--578): every error of the attempt is
  caught and only logged, and the \<^verbatim>\<open>finally\<close> block resets the current campaign.
\<close>

definition attemptCampaign ::
  "nat \<Rightarrow> ('w, 'inv) ext \<Rightarrow> options \<Rightarrow> string \<Rightarrow> bot \<Rightarrow> 'w env
     \<Rightarrow> ((error + unit) \<times> bot \<times> 'w env) option" where
  "attemptCampaign fuel x opts dropCampaignId s e =
     (case processDropCampaign fuel x opts dropCampaignId s e of
        None \<Rightarrow> None
      | Some (r, s1, e1) \<Rightarrow> Some (Inr (), s1\<lparr>currentDropCampaignId := None\<rparr>, e1))"

text \<open>
  One turn of the loop of \<^verbatim>\<open>start\<close> (lines 474--579). The idle branch (lines
  481--534) runs the higher-priority check on a timer while the session is watched; it
  is the parameter \<open>idle\<close>. An error that leaves the loop ends \<^verbatim>\<open>start\<close>.
\<close>

definition startTurn ::
  "nat \<Rightarrow> ('w, 'inv) ext \<Rightarrow> options
     \<Rightarrow> (bot \<Rightarrow> 'w env \<Rightarrow> ((error + unit) \<times> bot \<times> 'w env) option)
     \<Rightarrow> bot \<Rightarrow> 'w env \<Rightarrow> ((error + unit) \<times> bot \<times> 'w env) option" where
  "startTurn fuel x opts idle s e =
     (case getNextPendingDropCampaignId x s e of
        (Inl err, e1) \<Rightarrow> Some (Inl err, s, e1)
      | (Inr nextId, e1) \<Rightarrow>
          (let s1 = s\<lparr>currentDropCampaignId := nextId\<rparr>
           in (case nextId of
                 None \<Rightarrow>
                   if watchStreamsWhenNoDropCampaignsActive opts then idle s1 e1
                   else Some (sleepBranch x s1 e1)
               | Some dropCampaignId \<Rightarrow> attemptCampaign fuel x opts dropCampaignId s1 e1)))"

section \<open>The watchdog's events\<close>

text \<open>
  The pending queue is a \<^verbatim>\<open>SortedArray\<close> of the package \<^verbatim>\<open>sorted-array-type\<close>:
  \<^verbatim>\<open>insert\<close> puts the element at its place in the order of the comparator, \<^verbatim>\<open>pop\<close>
  removes the last element. The place is searched from the front here: the new element
  goes before the first element that it sorts before. The comparator may throw, and then
  \<^verbatim>\<open>insert\<close> throws.
\<close>

fun SortedArray_insert ::
  "('a \<Rightarrow> 'a \<Rightarrow> error + int) \<Rightarrow> 'a \<Rightarrow> 'a list \<Rightarrow> error + 'a list" where
  "SortedArray_insert cmp v [] = Inr [v]"
| "SortedArray_insert cmp v (y # ys) =
     (case cmp v y of
        Inl err \<Rightarrow> Inl err
      | Inr c \<Rightarrow>
          if c < 0 then Inr (v # y # ys)
          else (case SortedArray_insert cmp v ys of
                  Inl err \<Rightarrow> Inl err
                | Inr zs \<Rightarrow> Inr (y # zs)))"

text \<open>Lines 273--275: \<^verbatim>\<open>pop\<close> while the queue is not empty.\<close>

function popAll :: "'a list \<Rightarrow> 'a list" where
  "popAll xs = (if length xs > 0 then popAll (butlast xs) else xs)"
  by pat_completeness auto
termination
  by (relation "measure length") auto

declare popAll.simps [simp del]

text \<open>
  The body of \<^verbatim>\<open>campaigns.forEach\<close> (lines 278--303), over the fetched campaigns in
  order.
\<close>

fun addToPending ::
  "(string \<Rightarrow> timeval) \<Rightarrow> options \<Rightarrow> dropCampaign list \<Rightarrow> bot \<Rightarrow> (error + unit) \<times> bot" where
  "addToPending parse opts [] s = (Inr (), s)"
| "addToPending parse opts (campaign # rest) s =
     (if status campaign \<noteq> ''ACTIVE'' \<and> status campaign \<noteq> ''UPCOMING''
      then addToPending parse opts rest s
      else if game_id campaign \<in> set (ignoredGameIds opts)
      then addToPending parse opts rest s
      else
        (let dropCampaignId = campaign_id campaign;
             s1 = s\<lparr>dropCampaignMap := (dropCampaignMap s)(dropCampaignId \<mapsto> campaign)\<rparr>
         in if length (gameIds opts) = 0 \<or> game_id campaign \<in> set (gameIds opts)
               \<or> watchUnlistedGames opts
            then (case SortedArray_insert
                         (comparator parse (gameIds opts) (dropCampaignMap s1))
                         dropCampaignId (pendingDropCampaignIds s1) of
                    Inl err \<Rightarrow> (Inl err, s1)
                  | Inr q \<Rightarrow>
                      addToPending parse opts rest (s1\<lparr>pendingDropCampaignIds := q\<rparr>))
            else addToPending parse opts rest s1))"

text \<open>The handler of the watchdog's \<^verbatim>\<open>update\<close> event (lines 269--316).\<close>

definition onUpdate ::
  "('w, 'inv) ext \<Rightarrow> options \<Rightarrow> dropCampaign list \<Rightarrow> bot \<Rightarrow> 'w env
     \<Rightarrow> (error + unit) \<times> bot \<times> 'w env" where
  "onUpdate x opts campaigns s e =
     (case addToPending (Date_parse x) opts campaigns
             (s\<lparr>pendingDropCampaignIds := popAll (pendingDropCampaignIds s)\<rparr>) of
        (Inl err, s1) \<Rightarrow> (Inl err, s1, e)
      | (Inr u, s1) \<Rightarrow>
          (if currentDropCampaignId s1 \<noteq> None
           then (case hasPendingHigherPriorityStream x s1 e of
                   (Inl err, e1) \<Rightarrow> (Inl err, s1, e1)
                 | (Inr b, e1) \<Rightarrow>
                     (Inr (), if b then s1\<lparr>pendingHighPriority := True\<rparr> else s1,
                      notifyAll e1))
           else (Inr (), s1, notifyAll e)))"

text \<open>
  The events of the watchdog and the handlers the constructor registers for them (lines
  263--316): \<^verbatim>\<open>before_update\<close> and \<^verbatim>\<open>error\<close> only write to the log.
\<close>

datatype watchdogEvent =
    Before_update
  | Error string
  | Update "dropCampaign list"

fun onWatchdogEvent ::
  "('w, 'inv) ext \<Rightarrow> options \<Rightarrow> watchdogEvent \<Rightarrow> bot \<Rightarrow> 'w env
     \<Rightarrow> (error + unit) \<times> bot \<times> 'w env" where
  "onWatchdogEvent x opts Before_update s e = (Inr (), s, e)"
| "onWatchdogEvent x opts (Error err) s e = (Inr (), s, e)"
| "onWatchdogEvent x opts (Update campaigns) s e = onUpdate x opts campaigns s e"

section \<open>A small world for concrete runs\<close>

text \<open>
  Two campaigns, \<open>A\<close> of game \<open>G1\<close> and \<open>B\<close> of game \<open>G2\<close>, with the priority list
  \<open>[G2, G1]\<close>. The world is the number of rewards claimed so far, and the inventory is
  that number: the drop of \<open>A\<close> is watched completely and unclaimed until the first
  claim; the drop of \<open>B\<close> has 15 of 60 minutes. One stream is live. The clock stands at
  \<open>1000000\<close>.
\<close>

definition campA :: dropCampaign where
  "campA = \<lparr>campaign_id = ''A'', campaign_name = ''Campaign A'', status = ''ACTIVE'',
     game_id = ''G1'', game_displayName = ''Game One'', endAt = ''T1'',
     self_isAccountConnected = True, allow_isEnabled = False, allow_channels = None\<rparr>"

definition campB :: dropCampaign where
  "campB = \<lparr>campaign_id = ''B'', campaign_name = ''Campaign B'', status = ''ACTIVE'',
     game_id = ''G2'', game_displayName = ''Game Two'', endAt = ''T2'',
     self_isAccountConnected = True, allow_isEnabled = False, allow_channels = None\<rparr>"

definition campC :: dropCampaign where
  "campC = \<lparr>campaign_id = ''C'', campaign_name = ''Campaign C'', status = ''EXPIRED'',
     game_id = ''G1'', game_displayName = ''Game One'', endAt = ''T1'',
     self_isAccountConnected = True, allow_isEnabled = False, allow_channels = None\<rparr>"

definition parse0 :: "string \<Rightarrow> timeval" where
  "parse0 t = (if t = ''T1'' then Millis 3600000 else if t = ''T2'' then Millis 7200000 else NaN)"

definition opts0 :: options where
  "opts0 = \<lparr>gameIds = [''G2'', ''G1''], watchUnlistedGames = False, ignoredGameIds = [],
     failedStreamRetryCount = 3, failedStreamBlacklistTimeout = 30,
     attemptImpossibleDropCampaigns = True, watchStreamsWhenNoDropCampaignsActive = False,
     broadcasterIds = []\<rparr>"

definition dropA :: timeBasedDrop where
  "dropA = \<lparr>drop_id = ''dA'', requiredMinutesWatched = 60, drop_endAt = ''T1'',
     self_currentMinutesWatched = 60, self_dropInstanceID = ''iA''\<rparr>"

definition dropB :: timeBasedDrop where
  "dropB = \<lparr>drop_id = ''dB'', requiredMinutesWatched = 60, drop_endAt = ''T2'',
     self_currentMinutesWatched = 15, self_dropInstanceID = ''iB''\<rparr>"

definition stream1 :: stream where
  "stream1 = \<lparr>url = ''https://www.twitch.tv/s1'', broadcaster_id = ''b1''\<rparr>"

definition ext0 :: "(nat, nat) ext" where
  "ext0 = \<lparr>Date_parse = parse0,
     Date_getTime = (\<lambda>w. (1000000, w)),
     client_getInventory = (\<lambda>w. (Inr w, w)),
     client_getDropCampaignDetails = (\<lambda>i w. (Inr (if i = ''A'' then campA else campB), w)),
     client_claimDropReward = (\<lambda>i w. (Inr (), Suc w)),
     client_getActiveStreams = (\<lambda>g w. (Inr [stream1], w)),
     getFirstUnclaimedDrop =
       (\<lambda>i d invt. if i = ''A'' then (if invt = 0 then Some dropA else None) else Some dropB),
     getInventoryDrop =
       (\<lambda>d invt i. if d = ''dA'' then Some dropA else if d = ''dB'' then Some dropB else None),
     session = (\<lambda>u w. (Inr (), w)),
     page_goto = (\<lambda>u w. (Inr (), w))\<rparr>"

definition bot0 :: bot where
  "bot0 = (newBot opts0)
     \<lparr>pendingDropCampaignIds := [''B'', ''A''],
      dropCampaignMap := [''A'' \<mapsto> campA, ''B'' \<mapsto> campB]\<rparr>"

text \<open>The same world with a claim call that fails, with a session that is preempted, and
  with a session whose stream goes down.\<close>

definition extClaimFails :: "(nat, nat) ext" where
  "extClaimFails = ext0\<lparr>client_claimDropReward := (\<lambda>i w. (Inl (OtherError ''network''), w))\<rparr>"

definition extPreempted :: "(nat, nat) ext" where
  "extPreempted = ext0\<lparr>session := (\<lambda>u w. (Inl HighPriorityError, w))\<rparr>"

definition extStreamDown :: "(nat, nat) ext" where
  "extStreamDown = ext0\<lparr>session := (\<lambda>u w. (Inl StreamDownError, w))\<rparr>"

text \<open>
  The bot while it works on campaign \<open>A\<close>, and the same with the only live stream in
  the blacklist, inserted at the clock's time.
\<close>

definition botOnA :: bot where
  "botOnA = bot0\<lparr>currentDropCampaignId := Some ''A''\<rparr>"

definition botOnA_blacklisted :: bot where
  "botOnA_blacklisted = botOnA\<lparr>streamUrlTemporaryBlacklist :=
     TimedSet_add 1000000 (url stream1) (streamUrlTemporaryBlacklist botOnA)\<rparr>"

text \<open>
  The bot with campaign \<open>B\<close> attempted 50 seconds before the clock's time, and with
  campaign \<open>A\<close> attempted too, 100 seconds before it.
\<close>

definition botAfterB :: bot where
  "botAfterB = bot0\<lparr>lastDropCampaignAttemptTimes := [''B'' \<mapsto> 950000]\<rparr>"

definition botAttempted :: bot where
  "botAttempted = bot0\<lparr>lastDropCampaignAttemptTimes := [''A'' \<mapsto> 900000, ''B'' \<mapsto> 950000]\<rparr>"

section \<open>Properties of the comparator\<close>

lemma indexOf_ge: "- 1 \<le> indexOf xs x"
  by (induction xs) (auto simp: Let_def)

lemma indexOf_absent: "indexOf xs x = - 1 \<longleftrightarrow> x \<notin> set xs"
proof (induction xs)
  case Nil
  show ?case by simp
next
  case (Cons y ys)
  have "- 1 \<le> indexOf ys x" by (rule indexOf_ge)
  with Cons show ?case by (auto simp: Let_def)
qed

text \<open>
  Claim C1. For two campaign identifiers present in the campaign map the comparator
  returns a number: equal identifiers give 0; a campaign whose game is absent from the
  priority list sorts after one whose game is present; with the same index (both absent
  included) the strictly earlier end timestamp sorts first and, with equal end
  timestamps, the lexicographically smaller identifier; otherwise the sign of the index
  difference decides. A campaign whose game is first in the list sorts before one whose
  game is absent from it, whatever the end times are.
\<close>

theorem C1_comparator_order:
  assumes "m a = Some ca" and "m b = Some cb"
  shows "\<exists>r. comparator parse gids m a b = Inr r \<and>
    (a = b \<longrightarrow> r = 0) \<and>
    (game_id ca \<notin> set gids \<and> game_id cb \<in> set gids \<longrightarrow> r = 1) \<and>
    (game_id ca \<in> set gids \<and> game_id cb \<notin> set gids \<longrightarrow> r = - 1) \<and>
    (\<forall>ta tb. indexOf gids (game_id ca) = indexOf gids (game_id cb) \<and>
        parse (endAt ca) = Millis ta \<and> parse (endAt cb) = Millis tb \<longrightarrow>
        (ta < tb \<longrightarrow> r = - 1) \<and> (tb < ta \<longrightarrow> r = 1) \<and>
        (ta = tb \<and> a < b \<longrightarrow> r = - 1) \<and> (ta = tb \<and> b < a \<longrightarrow> r = 1)) \<and>
    (game_id ca \<in> set gids \<and> game_id cb \<in> set gids \<and>
        indexOf gids (game_id ca) \<noteq> indexOf gids (game_id cb) \<longrightarrow>
        r = sgn (indexOf gids (game_id ca) - indexOf gids (game_id cb))) \<and>
    (\<forall>g gs. gids = g # gs \<and> game_id ca = g \<and> game_id cb \<notin> set gids \<longrightarrow> r = - 1)"
proof (cases "a = b")
  case True
  with assms have "ca = cb" by simp
  with True show ?thesis by (auto simp: comparator_def)
next
  case False
  note ne = this
  let ?ia = "indexOf gids (game_id ca)" and ?ib = "indexOf gids (game_id cb)"
  have ia: "?ia = - 1 \<longleftrightarrow> game_id ca \<notin> set gids" by (rule indexOf_absent)
  have ib: "?ib = - 1 \<longleftrightarrow> game_id cb \<notin> set gids" by (rule indexOf_absent)
  consider (abs_pres) "game_id ca \<notin> set gids" "game_id cb \<in> set gids"
    | (pres_abs) "game_id ca \<in> set gids" "game_id cb \<notin> set gids"
    | (same) "?ia = ?ib"
    | (diff) "game_id ca \<in> set gids" "game_id cb \<in> set gids" "?ia \<noteq> ?ib"
    using ia ib by metis
  then show ?thesis
  proof cases
    case abs_pres
    with ne assms ia ib show ?thesis by (auto simp: comparator_def)
  next
    case pres_abs
    with ne assms ia ib show ?thesis by (auto simp: comparator_def)
  next
    case same
    then have both: "(game_id ca \<in> set gids) = (game_id cb \<in> set gids)"
      using ia ib by simp
    have r: "comparator parse gids m a b =
        Inr (if timeval_eq (parse (endAt ca)) (parse (endAt cb))
             then (if a < b then - 1 else 1)
             else (if timeval_lt (parse (endAt ca)) (parse (endAt cb)) then - 1 else 1))"
      using ne assms same by (simp add: comparator_def Let_def)
    have lin: "\<not> a < b \<Longrightarrow> b < a" using ne by auto
    show ?thesis unfolding r using same both ne ia
      by (auto dest: lin)
  next
    case diff
    with ne assms ia ib show ?thesis by (auto simp: comparator_def)
  qed
qed


theorem C1_comparator_order_witness:
  "dropCampaignMap bot0 ''A'' = Some campA \<and> dropCampaignMap bot0 ''B'' = Some campB \<and>
   comparator parse0 [''G2'', ''G1''] (dropCampaignMap bot0) ''A'' ''B'' = Inr 1 \<and>
   comparator parse0 [''G1''] (dropCampaignMap bot0) ''A'' ''B'' = Inr (- 1)"
proof -
  have a: "dropCampaignMap bot0 ''A'' = Some campA" by (simp add: bot0_def)
  have b: "dropCampaignMap bot0 ''B'' = Some campB" by (simp add: bot0_def)
  have g: "game_id campA = ''G1''" "game_id campB = ''G2''"
    by (simp_all add: campA_def campB_def)
  from C1_comparator_order [OF a b, of parse0 "[''G2'', ''G1'']"]
  have 1: "comparator parse0 [''G2'', ''G1''] (dropCampaignMap bot0) ''A'' ''B'' = Inr 1"
    by (auto simp: g)
  from C1_comparator_order [OF a b, of parse0 "[''G1'']"]
  have 2: "comparator parse0 [''G1''] (dropCampaignMap bot0) ''A'' ''B'' = Inr (- 1)"
    by (auto simp: g)
  from a b 1 2 show ?thesis by simp
qed

section \<open>Evaluation of concrete runs\<close>

lemmas world0_defs =
  bot0_def botOnA_def botOnA_blacklisted_def botAfterB_def botAttempted_def newBot_def opts0_def ext0_def extClaimFails_def
  extPreempted_def extStreamDown_def campA_def campB_def campC_def dropA_def dropB_def stream1_def parse0_def
  TimedSet_new_def TimedSet_add_def TimedSet_has_def

lemmas call_defs =
  logged_def getTime_def getInventory_def getDropCampaignDetails_def claimDropReward_def
  notifyAll_def blacklist_add_def blacklist_has_def getActiveStreams_def

section \<open>Properties of the higher-priority check\<close>

lemma checkCandidate_no_throw:
  "dropCampaignMap s cid \<noteq> None \<Longrightarrow> fst (checkCandidate x s cid e) \<noteq> Throw err"
  by (auto simp: checkCandidate_def split: prod.splits option.splits bool.splits sum.splits)

lemma hasPendingLoop_no_throw:
  "\<forall>cid \<in> set q. dropCampaignMap s cid \<noteq> None \<Longrightarrow> \<exists>b e'. hasPendingLoop x s q e = (Inr b, e')"
proof (induction q arbitrary: e)
  case Nil
  show ?case by auto
next
  case (Cons cid q)
  obtain t e1 where c: "checkCandidate x s cid e = (t, e1)" by (cases "checkCandidate x s cid e")
  from Cons.prems have "dropCampaignMap s cid \<noteq> None" by simp
  from checkCandidate_no_throw [OF this, of x e] c have nt: "\<And>err. t \<noteq> Throw err" by simp
  from Cons.prems have "\<forall>cid \<in> set q. dropCampaignMap s cid \<noteq> None" by simp
  from Cons.IH [OF this] have ih: "\<exists>b e'. hasPendingLoop x s q e1 = (Inr b, e')" .
  show ?case using c nt ih by (cases t) auto
qed




section \<open>Properties of the watch wrapper\<close>

text \<open>
  Claim C3 says that a session that ends with the preemption signal leaves the stream's
  failure counter and the blacklist as they were. The counter update of
  \<^verbatim>\<open>#watchStreamWrapper\<close> runs for every error: after a preempted session on a
  stream without a counter the counter is 1, and with a retry count of 1 the stream is
  in the blacklist.
\<close>

theorem C3_preemption_is_counted:
  "failedStreamUrlCounts bot0 ''https://www.twitch.tv/s1'' = None \<and>
   fst (watchStreamWrapper extPreempted opts0 ''https://www.twitch.tv/s1'' bot0 (0, []))
     = Inl HighPriorityError \<and>
   failedStreamUrlCounts
     (fst (snd (watchStreamWrapper extPreempted opts0 ''https://www.twitch.tv/s1'' bot0 (0, []))))
     ''https://www.twitch.tv/s1'' = Some 1 \<and>
   \<not> TimedSet_has 1000000 (streamUrlTemporaryBlacklist bot0) ''https://www.twitch.tv/s1'' \<and>
   TimedSet_has 1000000
     (streamUrlTemporaryBlacklist
       (fst (snd (watchStreamWrapper extPreempted (opts0\<lparr>failedStreamRetryCount := 1\<rparr>)
                    ''https://www.twitch.tv/s1'' bot0 (0, [])))))
     ''https://www.twitch.tv/s1''"
  by (simp add: world0_defs call_defs watchStreamWrapper_def watchStream_def onSessionError_def
        recordFailure_def)

section \<open>Properties of stream selection\<close>

text \<open>
  Claim C4 says that the higher-priority check reports a candidate only if it has a
  live stream that is not in the blacklist. With the only live stream of campaign \<open>B\<close>
  in the blacklist the check still answers true, while the selection of
  \<^verbatim>\<open>#processDropCampaign\<close> filters the stream out and ends with
  \<^verbatim>\<open>NoStreamsError\<close>.
\<close>

theorem C4_check_counts_blacklisted_stream:
  "hasPendingHigherPriorityStream ext0 botOnA_blacklisted (0, []) =
     (Inr True, (0, [GetInventory, GetDropCampaignDetails ''B'', GetActiveStreams ''Game Two''])) \<and>
   fst (getActiveStreams ext0 botOnA_blacklisted ''B'' campB (0, [])) = Inr [stream1] \<and>
   fst (blacklist_has ext0 botOnA_blacklisted (url stream1) (0, [])) \<and>
   fst (filterNotBlacklisted ext0 botOnA_blacklisted [stream1] (0, [])) = [] \<and>
   watchLoop 1 ext0 opts0 ''B'' campB botOnA_blacklisted (0, []) =
     Some (Inl NoStreamsError, botOnA_blacklisted, (0, [GetActiveStreams ''Game Two'']))"
  by (simp add: world0_defs call_defs hasPendingHigherPriorityStream_def checkCandidate_def
        attemptedRecently_def)

section \<open>Properties of the failure counter\<close>

lemma recordFailure_below:
  "(case failedStreamUrlCounts s u of None \<Rightarrow> 0 | Some n \<Rightarrow> n) + 1 < failedStreamRetryCount opts \<Longrightarrow>
   recordFailure x opts u s e =
     (s\<lparr>failedStreamUrlCounts := (failedStreamUrlCounts s)
          (u \<mapsto> (case failedStreamUrlCounts s u of None \<Rightarrow> 0 | Some n \<Rightarrow> n) + 1)\<rparr>, e)"
  by (simp add: recordFailure_def Let_def)

lemma recordFailure_threshold:
  "failedStreamRetryCount opts \<le> (case failedStreamUrlCounts s u of None \<Rightarrow> 0 | Some n \<Rightarrow> n) + 1 \<Longrightarrow>
   Date_getTime x (fst e) = (now, w) \<Longrightarrow>
   recordFailure x opts u s e =
     (s\<lparr>failedStreamUrlCounts := (failedStreamUrlCounts s)(u \<mapsto> 0),
        streamUrlTemporaryBlacklist := TimedSet_add now u (streamUrlTemporaryBlacklist s)\<rparr>,
      (w, snd e))"
  by (simp add: recordFailure_def Let_def blacklist_add_def getTime_def)

lemma watchStreamWrapper_stream_down:
  assumes "session x u (fst e) = (Inl StreamDownError, w)"
    and "Date_getTime x w = (now1, w1)" and "Date_getTime x w1 = (now2, w2)"
  shows "watchStreamWrapper x opts u s e =
     (Inl StreamDownError,
      (if failedStreamRetryCount opts \<le> 1
       then s\<lparr>failedStreamUrlCounts := (failedStreamUrlCounts s)(u \<mapsto> 0),
              streamUrlTemporaryBlacklist :=
                TimedSet_add now2 u (TimedSet_add now1 u (streamUrlTemporaryBlacklist s))\<rparr>
       else s\<lparr>failedStreamUrlCounts := (failedStreamUrlCounts s)(u \<mapsto> 1),
              streamUrlTemporaryBlacklist := TimedSet_add now1 u (streamUrlTemporaryBlacklist s)\<rparr>),
      (if failedStreamRetryCount opts \<le> 1 then w2 else w1, snd e @ [WatchStream u]))"
  using assms
  by (simp add: watchStreamWrapper_def watchStream_def onSessionError_def recordFailure_def
        logged_def blacklist_add_def getTime_def Let_def)

text \<open>
  Claim C6. Recording a failure increments the counter of the URL, from zero when there
  is none, and leaves the other counters alone. Below the retry threshold the blacklist
  is unchanged; at the threshold the URL is inserted into the blacklist, where it stays
  for the set's timeout, which the constructor sets to the configured number of minutes,
  and the counter is set back to zero. A session that ends with the stream-down signal
  inserts the URL into the blacklist whatever its counter is (a second time when the
  retry threshold is at most one).
\<close>

theorem C6_failure_recording:
  "(\<forall>c. c = (case failedStreamUrlCounts s u of None \<Rightarrow> 0 | Some n \<Rightarrow> n) + 1 \<longrightarrow>
      (c < failedStreamRetryCount opts \<longrightarrow>
         failedStreamUrlCounts (fst (recordFailure x opts u s e)) u = Some c \<and>
         streamUrlTemporaryBlacklist (fst (recordFailure x opts u s e)) =
           streamUrlTemporaryBlacklist s) \<and>
      (failedStreamRetryCount opts \<le> c \<longrightarrow>
         failedStreamUrlCounts (fst (recordFailure x opts u s e)) u = Some 0 \<and>
         streamUrlTemporaryBlacklist (fst (recordFailure x opts u s e)) =
           TimedSet_add (fst (Date_getTime x (fst e))) u (streamUrlTemporaryBlacklist s))) \<and>
   (\<forall>v. v \<noteq> u \<longrightarrow>
      failedStreamUrlCounts (fst (recordFailure x opts u s e)) v = failedStreamUrlCounts s v) \<and>
   (\<forall>now ts t. TimedSet_has t (TimedSet_add now u ts) u = (t < now + timeout ts)) \<and>
   timeout (streamUrlTemporaryBlacklist (newBot opts)) = 1000 * 60 * failedStreamBlacklistTimeout opts \<and>
   (\<forall>w now1 w1. session x u (fst e) = (Inl StreamDownError, w) \<and> Date_getTime x w = (now1, w1) \<longrightarrow>
      fst (watchStreamWrapper x opts u s e) = Inl StreamDownError \<and>
      (1 < failedStreamRetryCount opts \<longrightarrow>
         streamUrlTemporaryBlacklist (fst (snd (watchStreamWrapper x opts u s e))) =
           TimedSet_add now1 u (streamUrlTemporaryBlacklist s)) \<and>
      (failedStreamRetryCount opts \<le> 1 \<longrightarrow>
         streamUrlTemporaryBlacklist (fst (snd (watchStreamWrapper x opts u s e))) =
           TimedSet_add (fst (Date_getTime x w1)) u
             (TimedSet_add now1 u (streamUrlTemporaryBlacklist s))))"
proof (intro conjI allI impI; (elim conjE)?)
  fix c assume c: "c = (case failedStreamUrlCounts s u of None \<Rightarrow> 0 | Some n \<Rightarrow> n) + 1"
  {
    assume "c < failedStreamRetryCount opts"
    with c have r: "recordFailure x opts u s e =
        (s\<lparr>failedStreamUrlCounts := (failedStreamUrlCounts s)(u \<mapsto> c)\<rparr>, e)"
      by (simp add: recordFailure_below)
    show "failedStreamUrlCounts (fst (recordFailure x opts u s e)) u = Some c"
      by (simp add: r)
    show "streamUrlTemporaryBlacklist (fst (recordFailure x opts u s e)) =
        streamUrlTemporaryBlacklist s"
      by (simp add: r)
  }
  {
    assume "failedStreamRetryCount opts \<le> c"
    with c have r: "recordFailure x opts u s e =
        (s\<lparr>failedStreamUrlCounts := (failedStreamUrlCounts s)(u \<mapsto> 0),
           streamUrlTemporaryBlacklist :=
             TimedSet_add (fst (Date_getTime x (fst e))) u (streamUrlTemporaryBlacklist s)\<rparr>,
         (snd (Date_getTime x (fst e)), snd e))"
      by (simp add: recordFailure_threshold)
    show "failedStreamUrlCounts (fst (recordFailure x opts u s e)) u = Some 0"
      by (simp add: r)
    show "streamUrlTemporaryBlacklist (fst (recordFailure x opts u s e)) =
        TimedSet_add (fst (Date_getTime x (fst e))) u (streamUrlTemporaryBlacklist s)"
      by (simp add: r)
  }
next
  fix v assume "v \<noteq> u"
  then show "failedStreamUrlCounts (fst (recordFailure x opts u s e)) v = failedStreamUrlCounts s v"
    by (simp add: recordFailure_def Let_def blacklist_add_def getTime_def split: prod.splits)
next
  fix now ts t
  show "TimedSet_has t (TimedSet_add now u ts) u = (t < now + timeout ts)"
    by (simp add: TimedSet_has_def TimedSet_add_def)
next
  show "timeout (streamUrlTemporaryBlacklist (newBot opts)) =
      1000 * 60 * failedStreamBlacklistTimeout opts"
    by (simp add: newBot_def TimedSet_new_def)
next
  fix w now1 w1
  assume a: "session x u (fst e) = (Inl StreamDownError, w)" "Date_getTime x w = (now1, w1)"
  obtain now2 w2 where b: "Date_getTime x w1 = (now2, w2)" by (cases "Date_getTime x w1")
  note r = watchStreamWrapper_stream_down [OF a b, of opts s]
  show "fst (watchStreamWrapper x opts u s e) = Inl StreamDownError" by (simp add: r)
  {
    assume "1 < failedStreamRetryCount opts"
    then show "streamUrlTemporaryBlacklist (fst (snd (watchStreamWrapper x opts u s e))) =
        TimedSet_add now1 u (streamUrlTemporaryBlacklist s)"
      by (simp add: r)
  }
  {
    assume "failedStreamRetryCount opts \<le> 1"
    then show "streamUrlTemporaryBlacklist (fst (snd (watchStreamWrapper x opts u s e))) =
        TimedSet_add (fst (Date_getTime x w1)) u
          (TimedSet_add now1 u (streamUrlTemporaryBlacklist s))"
      by (simp add: r b)
  }
qed

theorem C6_failure_recording_witness:
  "failedStreamUrlCounts bot0 ''https://www.twitch.tv/s1'' = None \<and>
   failedStreamUrlCounts (fst (recordFailure ext0 opts0 ''https://www.twitch.tv/s1'' bot0 (0, [])))
     ''https://www.twitch.tv/s1'' = Some 1 \<and>
   streamUrlTemporaryBlacklist (fst (recordFailure ext0 opts0 ''https://www.twitch.tv/s1'' bot0 (0, [])))
     = streamUrlTemporaryBlacklist bot0 \<and>
   fst (watchStreamWrapper extStreamDown opts0 ''https://www.twitch.tv/s1'' bot0 (0, []))
     = Inl StreamDownError \<and>
   streamUrlTemporaryBlacklist
     (fst (snd (watchStreamWrapper extStreamDown opts0 ''https://www.twitch.tv/s1'' bot0 (0, []))))
     = TimedSet_add 1000000 ''https://www.twitch.tv/s1'' (streamUrlTemporaryBlacklist bot0) \<and>
   TimedSet_has 1000001
     (TimedSet_add 1000000 ''https://www.twitch.tv/s1'' (streamUrlTemporaryBlacklist bot0))
     ''https://www.twitch.tv/s1''"
proof -
  have c: "failedStreamUrlCounts bot0 ''https://www.twitch.tv/s1'' = None"
    "failedStreamRetryCount opts0 = 3"
    "timeout (streamUrlTemporaryBlacklist bot0) = 1800000"
    by (simp_all add: bot0_def newBot_def opts0_def TimedSet_new_def)
  have d: "session extStreamDown ''https://www.twitch.tv/s1'' (fst (0::nat, []::call list))
      = (Inl StreamDownError, 0)"
    "Date_getTime extStreamDown 0 = (1000000, 0)"
    by (simp_all add: extStreamDown_def ext0_def)
  from C6_failure_recording [where x = ext0 and opts = opts0 and s = bot0
      and u = "''https://www.twitch.tv/s1''" and e = "(0, [])"]
    C6_failure_recording [where x = extStreamDown and opts = opts0 and s = bot0
      and u = "''https://www.twitch.tv/s1''" and e = "(0, [])"]
  show ?thesis using c d by simp
qed

section \<open>Properties of the watchdog's events\<close>

lemma popAll_empty: "popAll xs = []"
proof (induction xs rule: popAll.induct)
  case (1 xs)
  show ?case
  proof (cases "length xs > 0")
    case True
    with "1.IH" have "popAll (butlast xs) = []" by simp
    with True show ?thesis by (subst popAll.simps) simp
  next
    case False
    then show ?thesis by (subst popAll.simps) simp
  qed
qed

lemma comparator_returns:
  "a = b \<or> (m a \<noteq> None \<and> m b \<noteq> None) \<Longrightarrow> \<exists>r. comparator parse gids m a b = Inr r"
  by (auto simp: comparator_def Let_def)

lemma SortedArray_insert_returns:
  "\<forall>y \<in> set ys. \<exists>r. cmp v y = Inr r \<Longrightarrow>
   \<exists>zs. SortedArray_insert cmp v ys = Inr zs \<and> set zs = insert v (set ys)"
proof (induction ys)
  case Nil
  show ?case by simp
next
  case (Cons y ys)
  from Cons.prems obtain r where r: "cmp v y = Inr r" by auto
  from Cons.prems have "\<forall>y \<in> set ys. \<exists>r. cmp v y = Inr r" by simp
  from Cons.IH [OF this] obtain zs
    where zs: "SortedArray_insert cmp v ys = Inr zs" "set zs = insert v (set ys)" by blast
  show ?case using r zs by auto
qed

lemma addToPending_skip:
  "\<not> ((status c = ''ACTIVE'' \<or> status c = ''UPCOMING'') \<and> game_id c \<notin> set (ignoredGameIds opts)) \<Longrightarrow>
   addToPending parse opts (c # cs) s = addToPending parse opts cs s"
  by auto

lemma addToPending_unlisted:
  "(status c = ''ACTIVE'' \<or> status c = ''UPCOMING'') \<and> game_id c \<notin> set (ignoredGameIds opts) \<Longrightarrow>
   \<not> (length (gameIds opts) = 0 \<or> game_id c \<in> set (gameIds opts) \<or> watchUnlistedGames opts) \<Longrightarrow>
   addToPending parse opts (c # cs) s =
     addToPending parse opts cs (s\<lparr>dropCampaignMap := (dropCampaignMap s)(campaign_id c \<mapsto> c)\<rparr>)"
  by (auto simp: Let_def)

lemma addToPending_insert:
  "(status c = ''ACTIVE'' \<or> status c = ''UPCOMING'') \<and> game_id c \<notin> set (ignoredGameIds opts) \<Longrightarrow>
   length (gameIds opts) = 0 \<or> game_id c \<in> set (gameIds opts) \<or> watchUnlistedGames opts \<Longrightarrow>
   SortedArray_insert
     (comparator parse (gameIds opts) ((dropCampaignMap s)(campaign_id c \<mapsto> c)))
     (campaign_id c) (pendingDropCampaignIds s) = Inr q \<Longrightarrow>
   addToPending parse opts (c # cs) s =
     addToPending parse opts cs
       (s\<lparr>dropCampaignMap := (dropCampaignMap s)(campaign_id c \<mapsto> c),
          pendingDropCampaignIds := q\<rparr>)"
  by (auto simp: Let_def)

lemma addToPending_rebuild:
  "\<forall>cid \<in> set (pendingDropCampaignIds s). dropCampaignMap s cid \<noteq> None \<Longrightarrow>
   \<exists>s'. addToPending parse opts campaigns s = (Inr (), s') \<and>
     set (pendingDropCampaignIds s') =
       set (pendingDropCampaignIds s) \<union> set (map campaign_id (filter (\<lambda>c. (status c = ''ACTIVE'' \<or> status c = ''UPCOMING'') \<and>
            game_id c \<notin> set (ignoredGameIds opts) \<and>
            (game_id c \<in> set (gameIds opts) \<or> gameIds opts = [] \<or> watchUnlistedGames opts)) campaigns)) \<and>
     (\<forall>cid \<in> set (pendingDropCampaignIds s'). dropCampaignMap s' cid \<noteq> None) \<and>
     currentDropCampaignId s' = currentDropCampaignId s"
proof (induction campaigns arbitrary: s)
  case Nil
  then show ?case by simp
next
  case (Cons c cs)
  let ?P = "(\<lambda>c. (status c = ''ACTIVE'' \<or> status c = ''UPCOMING'') \<and>
              game_id c \<notin> set (ignoredGameIds opts) \<and>
              (game_id c \<in> set (gameIds opts) \<or> gameIds opts = [] \<or> watchUnlistedGames opts))"
  let ?m1 = "(dropCampaignMap s)(campaign_id c \<mapsto> c)"
  let ?s1 = "s\<lparr>dropCampaignMap := ?m1\<rparr>"
  show ?case
  proof (cases "(status c = ''ACTIVE'' \<or> status c = ''UPCOMING'') \<and>
      game_id c \<notin> set (ignoredGameIds opts)")
    case False
    then have e: "\<not> ?P c" by auto
    note eq = addToPending_skip [OF False, of parse cs s]
    from Cons.IH [OF Cons.prems] e show ?thesis unfolding eq by auto
  next
    case True
    note stat = this
    have inv1: "\<forall>cid \<in> set (pendingDropCampaignIds ?s1). dropCampaignMap ?s1 cid \<noteq> None"
      using Cons.prems by simp
    show ?thesis
    proof (cases "length (gameIds opts) = 0 \<or> game_id c \<in> set (gameIds opts) \<or> watchUnlistedGames opts")
      case False
      with stat have e: "\<not> ?P c" by auto
      note eq = addToPending_unlisted [OF stat False, of parse cs s]
      from Cons.IH [OF inv1] e show ?thesis unfolding eq by auto
    next
      case True
      with stat have e: "?P c" by auto
      have cmp: "\<forall>y \<in> set (pendingDropCampaignIds s).
          \<exists>r. comparator parse (gameIds opts) ?m1 (campaign_id c) y = Inr r"
        using Cons.prems by (intro ballI comparator_returns) simp
      have "\<exists>zs. SortedArray_insert (comparator parse (gameIds opts) ?m1)
              (campaign_id c) (pendingDropCampaignIds s) = Inr zs \<and>
            set zs = insert (campaign_id c) (set (pendingDropCampaignIds s))"
        using cmp by (rule SortedArray_insert_returns)
      then obtain q where
        q: "SortedArray_insert (comparator parse (gameIds opts) ?m1)
              (campaign_id c) (pendingDropCampaignIds s) = Inr q"
           "set q = insert (campaign_id c) (set (pendingDropCampaignIds s))" by blast
      let ?s2 = "s\<lparr>dropCampaignMap := ?m1, pendingDropCampaignIds := q\<rparr>"
      have inv2: "\<forall>cid \<in> set (pendingDropCampaignIds ?s2). dropCampaignMap ?s2 cid \<noteq> None"
        using Cons.prems q(2) by simp
      note eq = addToPending_insert [OF stat True q(1), of cs]
      from Cons.IH [OF inv2] obtain s' where
        s': "addToPending parse opts cs ?s2 = (Inr (), s')"
            "set (pendingDropCampaignIds s') =
               set (pendingDropCampaignIds ?s2) \<union> set (map campaign_id (filter (\<lambda>c. (status c = ''ACTIVE'' \<or> status c = ''UPCOMING'') \<and>
            game_id c \<notin> set (ignoredGameIds opts) \<and>
            (game_id c \<in> set (gameIds opts) \<or> gameIds opts = [] \<or> watchUnlistedGames opts)) cs))"
            "\<forall>cid \<in> set (pendingDropCampaignIds s'). dropCampaignMap s' cid \<noteq> None"
            "currentDropCampaignId s' = currentDropCampaignId ?s2"
        by blast
      have "set (pendingDropCampaignIds s') =
          set (pendingDropCampaignIds s) \<union> set (map campaign_id (filter (\<lambda>c. (status c = ''ACTIVE'' \<or> status c = ''UPCOMING'') \<and>
            game_id c \<notin> set (ignoredGameIds opts) \<and>
            (game_id c \<in> set (gameIds opts) \<or> gameIds opts = [] \<or> watchUnlistedGames opts)) (c # cs)))"
        using s'(2) q(2) e by auto
      with s'(1,3,4) show ?thesis unfolding eq by auto
    qed
  qed
qed

lemma logged_calls: "logged c f e = (r, e') \<Longrightarrow> snd e' = snd e @ [c]"
  by (auto simp: logged_def split: prod.splits)

lemma getTime_calls: "getTime x e = (t, e') \<Longrightarrow> snd e' = snd e"
  by (auto simp: getTime_def split: prod.splits)

lemma attemptedRecently_calls: "attemptedRecently x s cid e = (b, e') \<Longrightarrow> snd e' = snd e"
  by (auto simp: attemptedRecently_def split: option.splits if_splits prod.splits
           dest: getTime_calls)

lemma getInventory_calls: "getInventory x e = (r, e') \<Longrightarrow> snd e' = snd e @ [GetInventory]"
  unfolding getInventory_def by (rule logged_calls)

lemma getDropCampaignDetails_calls:
  "getDropCampaignDetails x cid e = (r, e') \<Longrightarrow> snd e' = snd e @ [GetDropCampaignDetails cid]"
  unfolding getDropCampaignDetails_def by (rule logged_calls)

lemma claimDropReward_calls:
  "claimDropReward x d e = (r, e') \<Longrightarrow> snd e' = snd e @ [ClaimDropReward (self_dropInstanceID d)]"
  unfolding claimDropReward_def by (rule logged_calls)

lemma getActiveStreams_calls:
  "getActiveStreams x s cid det e = (r, e') \<Longrightarrow>
   snd e' = snd e \<or> (\<exists>g. snd e' = snd e @ [GetActiveStreams g])"
  by (auto simp: getActiveStreams_def split: option.splits sum.splits prod.splits
           dest: logged_calls)

lemma checkCandidate_calls:
  "checkCandidate x s cid e = (t, e') \<Longrightarrow> \<exists>cs. snd e' = snd e @ cs \<and> NotifyAll \<notin> set cs"
  unfolding checkCandidate_def
  by (auto split: option.splits prod.splits sum.splits bool.splits if_splits
           dest!: attemptedRecently_calls getInventory_calls getDropCampaignDetails_calls
             getActiveStreams_calls
           simp: claimDropReward_calls [OF surjective_pairing])

lemma hasPendingLoop_calls:
  "\<exists>cs. snd (snd (hasPendingLoop x s q e)) = snd e @ cs \<and> NotifyAll \<notin> set cs"
proof (induction q arbitrary: e)
  case Nil
  show ?case by simp
next
  case (Cons cid q)
  obtain t e1 where c: "checkCandidate x s cid e = (t, e1)" by (cases "checkCandidate x s cid e")
  from checkCandidate_calls [OF c] obtain cs1
    where cs1: "snd e1 = snd e @ cs1" "NotifyAll \<notin> set cs1" by auto
  from Cons.IH [of e1] obtain cs2
    where cs2: "snd (snd (hasPendingLoop x s q e1)) = snd e1 @ cs2" "NotifyAll \<notin> set cs2" by auto
  show ?case
  proof (cases "Some cid = currentDropCampaignId s")
    case True
    then show ?thesis by simp
  next
    case False
    show ?thesis
    proof (cases t)
      case Continue
      with False c cs1 cs2 have "snd (snd (hasPendingLoop x s (cid # q) e)) = snd e @ (cs1 @ cs2)"
        by simp
      moreover have "NotifyAll \<notin> set (cs1 @ cs2)" using cs1 cs2 by simp
      ultimately show ?thesis by blast
    next
      case (Return b)
      with False c cs1 show ?thesis by auto
    next
      case (Throw err)
      with False c cs1 show ?thesis by auto
    qed
  qed
qed

lemma onUpdate_notifies:
  "\<exists>s' w cs. onUpdate x opts campaigns s e = (Inr (), s', (w, snd e @ cs @ [NotifyAll])) \<and>
     NotifyAll \<notin> set cs \<and>
     set (pendingDropCampaignIds s') =
       set (map campaign_id (filter (\<lambda>c. (status c = ''ACTIVE'' \<or> status c = ''UPCOMING'') \<and>
            game_id c \<notin> set (ignoredGameIds opts) \<and>
            (game_id c \<in> set (gameIds opts) \<or> gameIds opts = [] \<or> watchUnlistedGames opts))
          campaigns))"
proof -
  let ?s0 = "s\<lparr>pendingDropCampaignIds := popAll (pendingDropCampaignIds s)\<rparr>"
  have "\<forall>cid \<in> set (pendingDropCampaignIds ?s0). dropCampaignMap ?s0 cid \<noteq> None"
    by (simp add: popAll_empty)
  from addToPending_rebuild [OF this, of "Date_parse x" opts campaigns] obtain s1 where
    s1: "addToPending (Date_parse x) opts campaigns ?s0 = (Inr (), s1)"
        "set (pendingDropCampaignIds s1) =
           set (map campaign_id (filter (\<lambda>c. (status c = ''ACTIVE'' \<or> status c = ''UPCOMING'') \<and>
            game_id c \<notin> set (ignoredGameIds opts) \<and>
            (game_id c \<in> set (gameIds opts) \<or> gameIds opts = [] \<or> watchUnlistedGames opts))
          campaigns))"
        "\<forall>cid \<in> set (pendingDropCampaignIds s1). dropCampaignMap s1 cid \<noteq> None"
    by (auto simp: popAll_empty)
  from hasPendingLoop_no_throw [OF s1(3), of x e] obtain b e1 where
    h: "hasPendingHigherPriorityStream x s1 e = (Inr b, e1)"
    by (auto simp: hasPendingHigherPriorityStream_def)
  from hasPendingLoop_calls [of x s1 "pendingDropCampaignIds s1" e] h obtain cs where
    cs: "snd e1 = snd e @ cs" "NotifyAll \<notin> set cs"
    by (auto simp: hasPendingHigherPriorityStream_def)
  show ?thesis
  proof (cases "currentDropCampaignId s1 \<noteq> None")
    case True
    with s1(1) h cs(1) have "onUpdate x opts campaigns s e =
        (Inr (), (if b then s1\<lparr>pendingHighPriority := True\<rparr> else s1),
         (fst e1, snd e @ cs @ [NotifyAll]))"
      by (simp add: onUpdate_def notifyAll_def)
    with cs(2) s1(2) show ?thesis by (cases b) auto
  next
    case False
    with s1(1) have "onUpdate x opts campaigns s e = (Inr (), s1, (fst e, snd e @ [] @ [NotifyAll]))"
      by (simp add: onUpdate_def notifyAll_def)
    with s1(2) show ?thesis by (metis empty_iff list.set(1))
  qed
qed

text \<open>
  Claim C5. On the watchdog's \<open>update\<close> event (the fetch succeeded) the handler returns
  and the pending queue holds exactly the identifiers of the fetched campaigns whose
  status is \<open>ACTIVE\<close> or \<open>UPCOMING\<close>, whose game is not ignored, and whose game is in
  the game list, or the game list is empty, or unlisted games are watched; what the queue
  held before does not matter. On the \<open>error\<close> event (the fetch failed) the handler
  returns and changes nothing, the pending queue included.
\<close>

theorem C5_watchdog_refresh:
  "(\<exists>s' e'. onWatchdogEvent x opts (Update campaigns) s e = (Inr (), s', e') \<and>
      set (pendingDropCampaignIds s') =
        set (map campaign_id (filter (\<lambda>c. (status c = ''ACTIVE'' \<or> status c = ''UPCOMING'') \<and>
            game_id c \<notin> set (ignoredGameIds opts) \<and>
            (game_id c \<in> set (gameIds opts) \<or> gameIds opts = [] \<or> watchUnlistedGames opts))
          campaigns))) \<and>
   onWatchdogEvent x opts (Error err) s e = (Inr (), s, e)"
  using onUpdate_notifies [of x opts campaigns s e] by auto

theorem C5_watchdog_refresh_witness:
  "set (pendingDropCampaignIds (fst (snd (onWatchdogEvent ext0 opts0 (Update [campA, campC]) bot0 (0, [])))))
     = {''A''} \<and>
   pendingDropCampaignIds bot0 = [''B'', ''A''] \<and>
   onWatchdogEvent ext0 opts0 (Error ''fetch failed'') bot0 (0, []) = (Inr (), bot0, (0, []))"
proof -
  have "map campaign_id (filter (\<lambda>c. (status c = ''ACTIVE'' \<or> status c = ''UPCOMING'') \<and>
            game_id c \<notin> set (ignoredGameIds opts0) \<and>
            (game_id c \<in> set (gameIds opts0) \<or> gameIds opts0 = [] \<or> watchUnlistedGames opts0))
          [campA, campC]) = [''A'']"
    by (simp add: campA_def campC_def opts0_def)
  with C5_watchdog_refresh [of ext0 opts0 "[campA, campC]" bot0 "(0, [])" "''fetch failed''"]
  show ?thesis by (auto simp: bot0_def)
qed

text \<open>
  Claim C8 says that the waiters are woken after every refresh, failed or not. The
  handler of the \<open>error\<close> event makes no call at all: after a failed fetch nobody is
  notified.
\<close>

theorem C8_failed_fetch_wakes_nobody:
  "onWatchdogEvent ext0 opts0 (Error ''fetch failed'') botOnA (0, []) = (Inr (), botOnA, (0, [])) \<and>
   NotifyAll \<notin> set (snd (snd (snd (onWatchdogEvent ext0 opts0 (Error ''fetch failed'') botOnA (0, [])))))"
  by simp

text \<open>
  Claim C8, amended. The handler of the \<open>update\<close> event always returns, and its last
  call, and its only call to the notifier, is \<^verbatim>\<open>notifyAll\<close>. The handler of the
  \<open>error\<close> event returns without any call.
\<close>

theorem C8_notify_after_update:
  "(\<exists>s' w cs. onWatchdogEvent x opts (Update campaigns) s e =
        (Inr (), s', (w, snd e @ cs @ [NotifyAll])) \<and> NotifyAll \<notin> set cs) \<and>
   onWatchdogEvent x opts (Error err) s e = (Inr (), s, e)"
  using onUpdate_notifies [of x opts campaigns s e] by auto

theorem C8_notify_after_update_witness:
  "snd (snd (snd (onWatchdogEvent ext0 opts0 (Update [campA, campB]) botOnA (0, [])))) =
     [GetInventory, GetDropCampaignDetails ''B'', GetActiveStreams ''Game Two'', NotifyAll] \<and>
   onWatchdogEvent ext0 opts0 (Error ''fetch failed'') botOnA (0, []) = (Inr (), botOnA, (0, []))"
proof -
  have "snd (snd (snd (onWatchdogEvent ext0 opts0 (Update [campA, campB]) botOnA (0, [])))) =
     [GetInventory, GetDropCampaignDetails ''B'', GetActiveStreams ''Game Two'', NotifyAll]"
    by (simp add: world0_defs call_defs onUpdate_def popAll_empty comparator_def
        hasPendingHigherPriorityStream_def checkCandidate_def attemptedRecently_def Let_def)
  with C8_notify_after_update [of ext0 opts0 "[campA, campB]" botOnA "(0, [])" "''fetch failed''"]
  show ?thesis by blast
qed

section \<open>Properties of campaign processing\<close>

lemma filterNotBlacklisted_calls:
  "filterNotBlacklisted x s sts e = (g, e') \<Longrightarrow> snd e' = snd e"
proof (induction sts arbitrary: e g e')
  case Nil
  then show ?case by simp
next
  case (Cons st sts)
  obtain b e1 where b: "blacklist_has x s (url st) e = (b, e1)"
    by (cases "blacklist_has x s (url st) e")
  obtain g2 e2 where g2: "filterNotBlacklisted x s sts e1 = (g2, e2)"
    by (cases "filterNotBlacklisted x s sts e1")
  from b have 1: "snd e1 = snd e"
    by (auto simp: blacklist_has_def getTime_def split: prod.splits)
  from Cons.IH [OF g2] have 2: "snd e2 = snd e1" .
  from Cons.prems b g2 have "e' = e2" by simp
  with 1 2 show ?case by simp
qed

lemma watchStreamWrapper_calls:
  "watchStreamWrapper x opts u s e = (r, s', e') \<Longrightarrow> snd e' = snd e @ [WatchStream u]"
  by (auto simp: watchStreamWrapper_def watchStream_def onSessionError_def recordFailure_def
        blacklist_add_def getTime_def logged_def Let_def
      split: prod.splits sum.splits if_splits)


lemma getActiveStreams_extends:
  "getActiveStreams x s cid det e = (r, e') \<Longrightarrow> \<exists>cs. snd e' = snd e @ cs"
  by (auto simp: getActiveStreams_def logged_def split: option.splits sum.splits prod.splits)

lemma watchLoop_calls:
  "watchLoop n x opts cid det s e = Some (r, s', e') \<Longrightarrow> \<exists>cs. snd e' = snd e @ cs"
proof (induction n arbitrary: s e)
  case 0
  then show ?case by simp
next
  case (Suc n)
  obtain ra e1 where a: "getActiveStreams x s cid det e = (ra, e1)"
    by (cases "getActiveStreams x s cid det e")
  from getActiveStreams_extends [OF a] obtain cs1 where 1: "snd e1 = snd e @ cs1" by blast
  show ?case
  proof (cases ra)
    case (Inl err)
    with Suc.prems a 1 show ?thesis by auto
  next
    case (Inr streams)
    obtain good e2 where f: "filterNotBlacklisted x s streams e1 = (good, e2)"
      by (cases "filterNotBlacklisted x s streams e1")
    from filterNotBlacklisted_calls [OF f] have 2: "snd e2 = snd e1" .
    show ?thesis
    proof (cases good)
      case Nil
      with Suc.prems a Inr f 1 2 show ?thesis by auto
    next
      case (Cons st rest)
      obtain rw s3 e3 where w: "watchStreamWrapper x opts (url st) s e2 = (rw, s3, e3)"
        by (cases "watchStreamWrapper x opts (url st) s e2")
      from watchStreamWrapper_calls [OF w] have 3: "snd e3 = snd e2 @ [WatchStream (url st)]" .
      show ?thesis
      proof (cases rw)
        case (Inr u)
        with Suc.prems a \<open>ra = Inr streams\<close> f Cons w 1 2 3 show ?thesis by auto
      next
        case (Inl err)
        show ?thesis
        proof (cases "err = HighPriorityError")
          case True
          with Suc.prems a \<open>ra = Inr streams\<close> f Cons w Inl 1 2 3 show ?thesis by auto
        next
          case False
          with Suc.prems a \<open>ra = Inr streams\<close> f Cons w Inl
          have "watchLoop n x opts cid det s3 e3 = Some (r, s', e')" by simp
          from Suc.IH [OF this] obtain cs4 where "snd e' = snd e3 @ cs4" by blast
          with 1 2 3 show ?thesis by simp
        qed
      qed
    qed
  qed
qed

lemma impossibleDrop_calls: "impossibleDrop x opts d c e = (b, e') \<Longrightarrow> snd e' = snd e"
  by (auto simp: impossibleDrop_def getTime_def Let_def split: if_splits prod.splits)


lemma dropLoop_claim:
  "getInventory x e = (Inr invt, e1) \<Longrightarrow> getFirstUnclaimedDrop x cid det invt = Some d \<Longrightarrow>
   getInventoryDrop x (drop_id d) invt cid = Some idrop \<Longrightarrow>
   requiredMinutesWatched idrop \<le> self_currentMinutesWatched idrop \<Longrightarrow>
   dropLoop (Suc n) x opts cid det s e =
     (case claimDropReward x idrop e1 of
        (Inl err, e2) \<Rightarrow> Some (Inl err, s, e2)
      | (Inr u, e2) \<Rightarrow> dropLoop n x opts cid det s e2)"
  by simp

lemma dropLoop_watch:
  "getInventory x e = (Inr invt, e1) \<Longrightarrow> getFirstUnclaimedDrop x cid det invt = Some d \<Longrightarrow>
   \<forall>idrop. getInventoryDrop x (drop_id d) invt cid = Some idrop \<longrightarrow>
      self_currentMinutesWatched idrop < requiredMinutesWatched idrop \<Longrightarrow>
   dropLoop (Suc n) x opts cid det s e =
     (case impossibleDrop x opts d
             (case getInventoryDrop x (drop_id d) invt cid of
                None \<Rightarrow> 0 | Some i \<Rightarrow> self_currentMinutesWatched i) e1 of
        (True, e2) \<Rightarrow> Some (Inr (), s, e2)
      | (False, e2) \<Rightarrow>
          (case watchLoop n x opts cid det (s\<lparr>failedStreamUrlCounts := Map.empty\<rparr>) e2 of
             None \<Rightarrow> None
           | Some (Inl err, s3, e3) \<Rightarrow> Some (Inl err, s3, e3)
           | Some (Inr u, s3, e3) \<Rightarrow> dropLoop n x opts cid det s3 e3))"
  by (cases "getInventoryDrop x (drop_id d) invt cid") simp_all

lemma dropLoop_calls:
  "dropLoop n x opts cid det s e = Some (r, s', e') \<Longrightarrow>
   \<exists>cs. snd e' = snd e @ GetInventory # cs"
proof (induction n arbitrary: s e)
  case 0
  then show ?case by simp
next
  case (Suc n)
  obtain ri e1 where i: "getInventory x e = (ri, e1)" by (cases "getInventory x e")
  from i have 1: "snd e1 = snd e @ [GetInventory]"
    by (auto simp: getInventory_def logged_def split: prod.splits)
  show ?case
  proof (cases ri)
    case (Inl err)
    with Suc.prems i 1 show ?thesis by auto
  next
    case (Inr invt)
    note i = i [unfolded Inr]
    show ?thesis
    proof (cases "getFirstUnclaimedDrop x cid det invt")
      case None
      with Suc.prems i 1 show ?thesis by auto
    next
      case (Some d)
      show ?thesis
      proof (cases "\<exists>idrop. getInventoryDrop x (drop_id d) invt cid = Some idrop \<and>
          requiredMinutesWatched idrop \<le> self_currentMinutesWatched idrop")
        case True
        then obtain idrop where id: "getInventoryDrop x (drop_id d) invt cid = Some idrop"
          "requiredMinutesWatched idrop \<le> self_currentMinutesWatched idrop" by blast
        obtain rc e2 where c: "claimDropReward x idrop e1 = (rc, e2)"
          by (cases "claimDropReward x idrop e1")
        from c have 2: "snd e2 = snd e1 @ [ClaimDropReward (self_dropInstanceID idrop)]"
          by (auto simp: claimDropReward_def logged_def split: prod.splits)
        note eq = dropLoop_claim [OF i Some id, of n opts s]
        show ?thesis
        proof (cases rc)
          case (Inl err)
          with Suc.prems c 1 2 show ?thesis unfolding eq by auto
        next
          case (Inr u)
          with Suc.prems c have "dropLoop n x opts cid det s e2 = Some (r, s', e')"
            unfolding eq by simp
          from Suc.IH [OF this] 1 2 show ?thesis by auto
        qed
      next
        case False
        then have nc: "\<forall>idrop. getInventoryDrop x (drop_id d) invt cid = Some idrop \<longrightarrow>
            self_currentMinutesWatched idrop < requiredMinutesWatched idrop" by auto
        let ?c = "case getInventoryDrop x (drop_id d) invt cid of
            None \<Rightarrow> 0 | Some i \<Rightarrow> self_currentMinutesWatched i"
        obtain bi e2 where im: "impossibleDrop x opts d ?c e1 = (bi, e2)"
          by (cases "impossibleDrop x opts d ?c e1")
        from impossibleDrop_calls [OF im] have 2: "snd e2 = snd e1" .
        note eq = dropLoop_watch [OF i Some nc, of n opts s]
        show ?thesis
        proof (cases bi)
          case True
          with Suc.prems im 1 2 show ?thesis unfolding eq by auto
        next
          case False
          note nb = this
          show ?thesis
          proof (cases "watchLoop n x opts cid det (s\<lparr>failedStreamUrlCounts := Map.empty\<rparr>) e2")
            case None
            with Suc.prems im nb show ?thesis unfolding eq by simp
          next
            case (Some res)
            obtain rw s3 e3 where res: "res = (rw, s3, e3)" by (cases res)
            from watchLoop_calls [OF Some [unfolded res]] obtain cs3
              where 3: "snd e3 = snd e2 @ cs3" by blast
            show ?thesis
            proof (cases rw)
              case (Inl err)
              with Suc.prems im nb Some res 1 2 3 show ?thesis unfolding eq by auto
            next
              case (Inr u)
              with Suc.prems im nb Some res
              have "dropLoop n x opts cid det s3 e3 = Some (r, s', e')" unfolding eq by simp
              from Suc.IH [OF this] 1 2 3 show ?thesis by auto
            qed
          qed
        qed
      qed
    qed
  qed
qed

text \<open>
  Claim C7 says that, whenever the fetched inventory shows the first unclaimed drop
  watched completely, one claim call is issued and the loop then fetches the inventory
  again. When the claim call fails, its error leaves \<^verbatim>\<open>#processDropCampaign\<close>: the
  loop ends after the one claim call, without a second inventory fetch.
\<close>

theorem C7_failed_claim_ends_attempt:
  "getInventory extClaimFails (0, []) = (Inr 0, (0, [GetInventory])) \<and>
   getFirstUnclaimedDrop extClaimFails ''A'' campA 0 = Some dropA \<and>
   getInventoryDrop extClaimFails (drop_id dropA) 0 ''A'' = Some dropA \<and>
   requiredMinutesWatched dropA \<le> self_currentMinutesWatched dropA \<and>
   dropLoop 3 extClaimFails opts0 ''A'' campA bot0 (0, []) =
     Some (Inl (OtherError ''network''), bot0, (0, [GetInventory, ClaimDropReward ''iA'']))"
  by (simp add: world0_defs call_defs eval_nat_numeral)

text \<open>
  Claim C7, amended. In a turn of the loop of \<^verbatim>\<open>#processDropCampaign\<close> whose
  inventory shows the first unclaimed drop with at least the required minutes watched,
  the calls of the turn are the inventory fetch and one claim call for the drop's claim
  instance, and no stream is selected. When the claim call succeeds the loop goes on
  with its next turn, whose first call is the inventory fetch; when it fails the
  campaign attempt ends with that error.
\<close>

theorem C7_claim_before_stream_selection:
  assumes "getInventory x e = (Inr invt, e1)"
    and "getFirstUnclaimedDrop x cid det invt = Some d"
    and "getInventoryDrop x (drop_id d) invt cid = Some idrop"
    and "requiredMinutesWatched idrop \<le> self_currentMinutesWatched idrop"
  shows "snd (snd (claimDropReward x idrop e1)) =
      snd e @ [GetInventory, ClaimDropReward (self_dropInstanceID idrop)] \<and>
    (\<forall>err e2. claimDropReward x idrop e1 = (Inl err, e2) \<longrightarrow>
       dropLoop (Suc n) x opts cid det s e = Some (Inl err, s, e2)) \<and>
    (\<forall>e2. claimDropReward x idrop e1 = (Inr (), e2) \<longrightarrow>
       dropLoop (Suc n) x opts cid det s e = dropLoop n x opts cid det s e2 \<and>
       (\<forall>r s' e'. dropLoop n x opts cid det s e2 = Some (r, s', e') \<longrightarrow>
          (\<exists>cs. snd e' =
             snd e @ [GetInventory, ClaimDropReward (self_dropInstanceID idrop), GetInventory] @ cs)))"
proof (intro conjI allI impI)
  from assms(1) have 1: "snd e1 = snd e @ [GetInventory]"
    by (auto simp: getInventory_def logged_def split: prod.splits)
  then show c: "snd (snd (claimDropReward x idrop e1)) =
      snd e @ [GetInventory, ClaimDropReward (self_dropInstanceID idrop)]"
    by (simp add: claimDropReward_def logged_def split: prod.splits)
  note eq = dropLoop_claim [OF assms, of n opts s]
  {
    fix err e2 assume "claimDropReward x idrop e1 = (Inl err, e2)"
    then show "dropLoop (Suc n) x opts cid det s e = Some (Inl err, s, e2)"
      unfolding eq by simp
  }
  {
    fix e2 assume ok: "claimDropReward x idrop e1 = (Inr (), e2)"
    then show "dropLoop (Suc n) x opts cid det s e = dropLoop n x opts cid det s e2"
      unfolding eq by simp
    from ok c have 2: "snd e2 = snd e @ [GetInventory, ClaimDropReward (self_dropInstanceID idrop)]"
      by simp
    fix r s' e' assume "dropLoop n x opts cid det s e2 = Some (r, s', e')"
    from dropLoop_calls [OF this] 2
    show "\<exists>cs. snd e' =
        snd e @ [GetInventory, ClaimDropReward (self_dropInstanceID idrop), GetInventory] @ cs"
      by auto
  }
qed

theorem C7_claim_before_stream_selection_witness:
  "getInventory ext0 (0, []) = (Inr 0, (0, [GetInventory])) \<and>
   getFirstUnclaimedDrop ext0 ''A'' campA 0 = Some dropA \<and>
   getInventoryDrop ext0 (drop_id dropA) 0 ''A'' = Some dropA \<and>
   requiredMinutesWatched dropA \<le> self_currentMinutesWatched dropA \<and>
   claimDropReward ext0 dropA (0, [GetInventory]) =
     (Inr (), (1, [GetInventory, ClaimDropReward ''iA''])) \<and>
   dropLoop 3 ext0 opts0 ''A'' campA bot0 (0, []) =
     dropLoop 2 ext0 opts0 ''A'' campA bot0 (1, [GetInventory, ClaimDropReward ''iA'']) \<and>
   map_option (\<lambda>(r, s, e). (r, snd e)) (dropLoop 3 ext0 opts0 ''A'' campA bot0 (0, [])) =
     Some (Inr (), [GetInventory, ClaimDropReward ''iA'', GetInventory])"
proof -
  have a: "getInventory ext0 (0, []) = (Inr 0, (0, [GetInventory]))"
    "getFirstUnclaimedDrop ext0 ''A'' campA 0 = Some dropA"
    "getInventoryDrop ext0 (drop_id dropA) 0 ''A'' = Some dropA"
    "requiredMinutesWatched dropA \<le> self_currentMinutesWatched dropA"
    by (simp_all add: world0_defs call_defs)
  have c: "claimDropReward ext0 dropA (0, [GetInventory]) =
     (Inr (), (1, [GetInventory, ClaimDropReward ''iA'']))"
    by (simp add: world0_defs call_defs)
  have n: "(3::nat) = Suc 2" by simp
  from C7_claim_before_stream_selection [OF a, of 2 opts0 bot0] c
  have 1: "dropLoop 3 ext0 opts0 ''A'' campA bot0 (0, []) =
     dropLoop 2 ext0 opts0 ''A'' campA bot0 (1, [GetInventory, ClaimDropReward ''iA''])"
    unfolding n by blast
  have 2: "map_option (\<lambda>(r, s, e). (r, snd e))
      (dropLoop 2 ext0 opts0 ''A'' campA bot0 (1, [GetInventory, ClaimDropReward ''iA''])) =
     Some (Inr (), [GetInventory, ClaimDropReward ''iA'', GetInventory])"
    by (simp add: world0_defs call_defs eval_nat_numeral)
  from a c 1 2 show ?thesis by simp
qed

section \<open>Properties of the main loop\<close>









text \<open>
  Claim C10. When the loop of \<^verbatim>\<open>start\<close> attempts a campaign and
  \<^verbatim>\<open>#processDropCampaign\<close> ends, whether it returns or throws, and whatever it
  throws, the turn of the loop ends normally with the current campaign identifier reset
  to \<open>None\<close> (\<^verbatim>\<open>null\<close>); the state is otherwise the one the attempt left. A turn
  whose attempt does not end has no successor.
\<close>

theorem C10_current_campaign_reset:
  "(\<forall>cid e1 r s2 e2.
      getNextPendingDropCampaignId x s e = (Inr (Some cid), e1) \<and>
      processDropCampaign fuel x opts cid (s\<lparr>currentDropCampaignId := Some cid\<rparr>) e1
        = Some (r, s2, e2) \<longrightarrow>
      (\<exists>s'. startTurn fuel x opts idle s e = Some (Inr (), s', e2) \<and>
         s' = s2\<lparr>currentDropCampaignId := None\<rparr> \<and> currentDropCampaignId s' = None)) \<and>
   (\<forall>cid e1.
      getNextPendingDropCampaignId x s e = (Inr (Some cid), e1) \<and>
      processDropCampaign fuel x opts cid (s\<lparr>currentDropCampaignId := Some cid\<rparr>) e1 = None \<longrightarrow>
      startTurn fuel x opts idle s e = None)"
  by (auto simp: startTurn_def attemptCampaign_def)

lemmas run_defs =
  startTurn_def attemptCampaign_def processDropCampaign_def getNextPendingDropCampaignId_def
  hasPendingHigherPriorityStream_def checkCandidate_def attemptedRecently_def
  sleepTimeMilliseconds_def impossibleDrop_def watchStreamWrapper_def watchStream_def
  onSessionError_def recordFailure_def Let_def

lemma run_returns:
  "map_option (\<lambda>(r, s, e). (r, snd e))
     (processDropCampaign 3 ext0 opts0 ''A'' (botAfterB\<lparr>currentDropCampaignId := Some ''A''\<rparr>) (0, []))
   = Some (Inr (), [GetDropCampaignDetails ''A'', GetInventory, ClaimDropReward ''iA'', GetInventory])"
  by (simp add: world0_defs call_defs run_defs eval_nat_numeral)

lemma run_no_streams:
  "map_option (\<lambda>(r, s, e). (r, snd e))
     (processDropCampaign 3 ext0 opts0 ''B'' (botOnA_blacklisted\<lparr>currentDropCampaignId := Some ''B''\<rparr>) (0, []))
   = Some (Inl NoStreamsError, [GetDropCampaignDetails ''B'', GetInventory, GetActiveStreams ''Game Two''])"
  by (simp add: world0_defs call_defs run_defs eval_nat_numeral)

lemma run_preempted:
  "map_option (\<lambda>(r, s, e). (r, snd e))
     (processDropCampaign 3 extPreempted opts0 ''B'' (bot0\<lparr>currentDropCampaignId := Some ''B''\<rparr>) (0, []))
   = Some (Inl HighPriorityError, [GetDropCampaignDetails ''B'', GetInventory,
        GetActiveStreams ''Game Two'', WatchStream ''https://www.twitch.tv/s1''])"
  by (simp add: world0_defs call_defs run_defs eval_nat_numeral)

lemma run_other_error:
  "map_option (\<lambda>(r, s, e). (r, snd e))
     (processDropCampaign 3 extClaimFails opts0 ''A'' (botAfterB\<lparr>currentDropCampaignId := Some ''A''\<rparr>) (0, []))
   = Some (Inl (OtherError ''network''), [GetDropCampaignDetails ''A'', GetInventory, ClaimDropReward ''iA''])"
  by (simp add: world0_defs call_defs run_defs eval_nat_numeral)

lemma next_A: "getNextPendingDropCampaignId ext0 botAfterB (0, []) = (Inr (Some ''A''), (0, []))"
  "getNextPendingDropCampaignId extClaimFails botAfterB (0, []) = (Inr (Some ''A''), (0, []))"
  by (simp_all add: world0_defs call_defs run_defs)

lemma next_B: "getNextPendingDropCampaignId ext0 botOnA_blacklisted (0, []) = (Inr (Some ''B''), (0, []))"
  "getNextPendingDropCampaignId extPreempted bot0 (0, []) = (Inr (Some ''B''), (0, []))"
  by (simp_all add: world0_defs call_defs run_defs)

theorem C10_current_campaign_reset_witness:
  "map_option (\<lambda>(r, s, e). (r, currentDropCampaignId s))
     (startTurn 3 ext0 opts0 (\<lambda>s e. None) botAfterB (0, [])) = Some (Inr (), None) \<and>
   map_option (\<lambda>(r, s, e). (r, currentDropCampaignId s))
     (startTurn 3 ext0 opts0 (\<lambda>s e. None) botOnA_blacklisted (0, [])) = Some (Inr (), None) \<and>
   map_option (\<lambda>(r, s, e). (r, currentDropCampaignId s))
     (startTurn 3 extPreempted opts0 (\<lambda>s e. None) bot0 (0, [])) = Some (Inr (), None) \<and>
   map_option (\<lambda>(r, s, e). (r, currentDropCampaignId s))
     (startTurn 3 extClaimFails opts0 (\<lambda>s e. None) botAfterB (0, [])) = Some (Inr (), None)"
proof -
  have "\<exists>s2 e2. processDropCampaign 3 ext0 opts0 ''A''
      (botAfterB\<lparr>currentDropCampaignId := Some ''A''\<rparr>) (0, []) = Some (Inr (), s2, e2)"
    using run_returns by auto
  with C10_current_campaign_reset [of ext0 botAfterB "(0, [])" 3 opts0 "\<lambda>s e. None"] next_A(1)
  have 1: "map_option (\<lambda>(r, s, e). (r, currentDropCampaignId s))
     (startTurn 3 ext0 opts0 (\<lambda>s e. None) botAfterB (0, [])) = Some (Inr (), None)"
    by force
  have "\<exists>s2 e2. processDropCampaign 3 ext0 opts0 ''B''
      (botOnA_blacklisted\<lparr>currentDropCampaignId := Some ''B''\<rparr>) (0, [])
        = Some (Inl NoStreamsError, s2, e2)"
    using run_no_streams by auto
  with C10_current_campaign_reset [of ext0 botOnA_blacklisted "(0, [])" 3 opts0 "\<lambda>s e. None"]
    next_B(1)
  have 2: "map_option (\<lambda>(r, s, e). (r, currentDropCampaignId s))
     (startTurn 3 ext0 opts0 (\<lambda>s e. None) botOnA_blacklisted (0, [])) = Some (Inr (), None)"
    by force
  have "\<exists>s2 e2. processDropCampaign 3 extPreempted opts0 ''B''
      (bot0\<lparr>currentDropCampaignId := Some ''B''\<rparr>) (0, []) = Some (Inl HighPriorityError, s2, e2)"
    using run_preempted by auto
  with C10_current_campaign_reset [of extPreempted bot0 "(0, [])" 3 opts0 "\<lambda>s e. None"] next_B(2)
  have 3: "map_option (\<lambda>(r, s, e). (r, currentDropCampaignId s))
     (startTurn 3 extPreempted opts0 (\<lambda>s e. None) bot0 (0, [])) = Some (Inr (), None)"
    by force
  have "\<exists>s2 e2. processDropCampaign 3 extClaimFails opts0 ''A''
      (botAfterB\<lparr>currentDropCampaignId := Some ''A''\<rparr>) (0, [])
        = Some (Inl (OtherError ''network''), s2, e2)"
    using run_other_error by auto
  with C10_current_campaign_reset [of extClaimFails botAfterB "(0, [])" 3 opts0 "\<lambda>s e. None"]
    next_A(2)
  have 4: "map_option (\<lambda>(r, s, e). (r, currentDropCampaignId s))
     (startTurn 3 extClaimFails opts0 (\<lambda>s e. None) botAfterB (0, [])) = Some (Inr (), None)"
    by force
  from 1 2 3 4 show ?thesis by simp
qed

end
